theory Spec2Isabelle
  imports Complex_Main "HOL-Library.Sublist"
begin

section \<open>Errors\<close>

text \<open>The exceptions the modelled code can raise, as values.\<close>

datatype py_error = ZeroDivisionError | IndexError | ConnectionError | StreamlitAPIException

definition bind_result :: "py_error + 'a \<Rightarrow> ('a \<Rightarrow> py_error + 'b) \<Rightarrow> py_error + 'b" where
  "bind_result r f = (case r of Inl e \<Rightarrow> Inl e | Inr x \<Rightarrow> f x)"

section \<open>Strings\<close>

text \<open>
  A Python \<open>str\<close> is a sequence of code points; a character is the number of its code
  point. \<open>str\<close> turns a literal of the basic characters into such a sequence.
\<close>

type_synonym pystr = "nat list"

definition str :: "string \<Rightarrow> pystr" where
  "str s = map of_char s"

text \<open>
  The classes \<open>\s\<close>, \<open>\d\<close> and \<open>\w\<close> of a \<open>str\<close> pattern follow the Unicode database of
  the Python build. Below code point 256 they are written out; above, the database
  is a parameter.
\<close>

record unicode_tables =
  uni_space :: "nat \<Rightarrow> bool"
  uni_digit :: "nat \<Rightarrow> bool"
  uni_word :: "nat \<Rightarrow> bool"

text \<open>\<open>\s\<close>, which is also what \<open>str.strip()\<close> removes.\<close>

definition is_space :: "unicode_tables \<Rightarrow> nat \<Rightarrow> bool" where
  "is_space U c =
     (if c < 256 then (9 \<le> c \<and> c \<le> 13) \<or> (28 \<le> c \<and> c \<le> 32) \<or> c = 133 \<or> c = 160
      else uni_space U c)"

text \<open>\<open>\d\<close>\<close>

definition is_digit :: "unicode_tables \<Rightarrow> nat \<Rightarrow> bool" where
  "is_digit U c = (if c < 256 then 48 \<le> c \<and> c \<le> 57 else uni_digit U c)"

text \<open>\<open>[a-z]\<close> and \<open>[A-Z]\<close>\<close>

definition is_lower :: "nat \<Rightarrow> bool" where
  "is_lower c = (97 \<le> c \<and> c \<le> 122)"

definition is_upper :: "nat \<Rightarrow> bool" where
  "is_upper c = (65 \<le> c \<and> c \<le> 90)"

text \<open>\<open>\w\<close>: the alphanumeric code points and the underscore.\<close>

definition is_word :: "unicode_tables \<Rightarrow> nat \<Rightarrow> bool" where
  "is_word U c =
     (if c < 256
      then (48 \<le> c \<and> c \<le> 57) \<or> is_upper c \<or> c = 95 \<or> is_lower c
        \<or> c = 170 \<or> c = 178 \<or> c = 179 \<or> c = 181 \<or> c = 185 \<or> c = 186
        \<or> (188 \<le> c \<and> c \<le> 190) \<or> (192 \<le> c \<and> c \<le> 214)
        \<or> (216 \<le> c \<and> c \<le> 246) \<or> 248 \<le> c
      else uni_word U c)"

text \<open>\<open>[.,!?]\<close>, \<open>[^\s]\<close>, \<open>(\d|\w)\<close>, \<open>[\(\)]\<close> and \<open>\.\<close>\<close>

definition is_punct :: "nat \<Rightarrow> bool" where
  "is_punct c = (c = 46 \<or> c = 44 \<or> c = 33 \<or> c = 63)"

definition non_space :: "unicode_tables \<Rightarrow> nat \<Rightarrow> bool" where
  "non_space U c = (\<not> is_space U c)"

definition digit_or_word :: "unicode_tables \<Rightarrow> nat \<Rightarrow> bool" where
  "digit_or_word U c = (is_digit U c \<or> is_word U c)"

definition is_paren :: "nat \<Rightarrow> bool" where
  "is_paren c = (c = 40 \<or> c = 41)"

definition is_period :: "nat \<Rightarrow> bool" where
  "is_period c = (c = 46)"

text \<open>
  An instance of the tables with no code point above 255 in any class; it serves
  where a concrete database is needed and the strings stay below 256.
\<close>

definition basic_tables :: unicode_tables where
  "basic_tables = \<lparr>uni_space = (\<lambda>c. False), uni_digit = (\<lambda>c. False), uni_word = (\<lambda>c. False)\<rparr>"

section \<open>Text cleanup pass (\<open>clean_response_text\<close>, app.py lines 11-21)\<close>

text \<open>
  \<open>re.sub(r"(A)(B)", r"\1 \2", text)\<close> for two one-character classes \<open>A\<close> and \<open>B\<close>:
  the matches are found from left to right and do not overlap, so after a match at
  positions \<open>i, i+1\<close> the search goes on at \<open>i+2\<close>; each match is replaced by its first
  character, a space (code point 32) and its second character, everything else is
  copied.
\<close>

fun re_sub_2 :: "(nat \<Rightarrow> bool) \<Rightarrow> (nat \<Rightarrow> bool) \<Rightarrow> pystr \<Rightarrow> pystr" where
  "re_sub_2 A B (a # b # rest) =
     (if A a \<and> B b then a # 32 # b # re_sub_2 A B rest
      else a # re_sub_2 A B (b # rest))"
| "re_sub_2 A B [a] = [a]"
| "re_sub_2 A B [] = []"

definition sub_punct :: "unicode_tables \<Rightarrow> pystr \<Rightarrow> pystr" where
  "sub_punct U text = re_sub_2 is_punct (non_space U) text"

definition sub_word_paren :: "unicode_tables \<Rightarrow> pystr \<Rightarrow> pystr" where
  "sub_word_paren U text = re_sub_2 (digit_or_word U) is_paren text"

definition sub_paren_word :: "unicode_tables \<Rightarrow> pystr \<Rightarrow> pystr" where
  "sub_paren_word U text = re_sub_2 is_paren (digit_or_word U) text"

definition sub_lower_upper :: "pystr \<Rightarrow> pystr" where
  "sub_lower_upper text = re_sub_2 is_lower is_upper text"

definition sub_period_upper :: "pystr \<Rightarrow> pystr" where
  "sub_period_upper text = re_sub_2 is_period is_upper text"

definition clean_response_text :: "unicode_tables \<Rightarrow> pystr \<Rightarrow> pystr" where
  "clean_response_text U text =
     sub_period_upper (sub_lower_upper (sub_paren_word U (sub_word_paren U (sub_punct U text))))"

text \<open>No two neighbouring characters of the string match \<open>(A)(B)\<close>.\<close>

fun no_pair :: "(nat \<Rightarrow> bool) \<Rightarrow> (nat \<Rightarrow> bool) \<Rightarrow> pystr \<Rightarrow> bool" where
  "no_pair A B (a # b # rest) = (\<not> (A a \<and> B b) \<and> no_pair A B (b # rest))"
| "no_pair A B [a] = True"
| "no_pair A B [] = True"

section \<open>Data loading (\<open>load_data\<close>, \<open>load_zip_lat_lon\<close>, app.py lines 26-37)\<close>

text \<open>
  \<open>str.zfill(width)\<close>: a string of at least \<open>width\<close> characters is returned as it is;
  a shorter one is filled with \<open>0\<close> (code point 48) on the left, after a leading \<open>+\<close>
  (43) or \<open>-\<close> (45) if there is one.
\<close>

definition zfill :: "nat \<Rightarrow> pystr \<Rightarrow> pystr" where
  "zfill width s =
     (if width \<le> length s then s
      else (case s of
              [] \<Rightarrow> replicate width 48
            | c # rest \<Rightarrow>
                if c = 43 \<or> c = 45
                then c # replicate (width - length s) 48 @ rest
                else replicate (width - length s) 48 @ s))"

text \<open>
  \<open>Series.str.zfill(width)\<close> of pandas fills each value on the left. Later versions
  apply \<open>str.zfill\<close> to the value; earlier ones put all the zeros in front, whatever
  the first character is. \<open>sign_aware\<close> tells which of the two the installed
  version does.
\<close>

definition series_zfill :: "bool \<Rightarrow> nat \<Rightarrow> pystr \<Rightarrow> pystr" where
  "series_zfill sign_aware width s =
     (if sign_aware then zfill width s else replicate (width - length s) 48 @ s)"

text \<open>\<open>str.strip()\<close>: leading and trailing whitespace removed.\<close>

definition strip :: "unicode_tables \<Rightarrow> pystr \<Rightarrow> pystr" where
  "strip U s = rev (dropWhile (is_space U) (rev (dropWhile (is_space U) s)))"

text \<open>
  \<open>.astype(str).str.zfill(5).str.strip()\<close> on one cell. The argument is the cell
  after \<open>astype(str)\<close>, that is, the raw value as a string.
\<close>

definition normalize_zip :: "unicode_tables \<Rightarrow> bool \<Rightarrow> pystr \<Rightarrow> pystr" where
  "normalize_zip U sign_aware raw = strip U (series_zfill sign_aware 5 raw)"

section \<open>Floating-point numbers\<close>

text \<open>
  The numbers of the script are Python floats. Their arithmetic is a parameter: the
  operations the script uses, on a type \<open>'f\<close> of floats. \<open>f_is_zero x\<close> is the test
  \<open>x == 0.0\<close>, which decides both the truth value of a float (\<open>if x\<close> holds when \<open>x\<close> is
  not zero) and whether a division by \<open>x\<close> raises. \<open>f_eq\<close> is \<open>==\<close>, \<open>f_lt\<close> is \<open><\<close>,
  \<open>f_of_int\<close> the conversion of an integer, \<open>f_nan\<close> the value \<open>np.nan\<close>.
\<close>

record 'f float_ops =
  f_mul :: "'f \<Rightarrow> 'f \<Rightarrow> 'f"
  f_div :: "'f \<Rightarrow> 'f \<Rightarrow> 'f"
  f_sub :: "'f \<Rightarrow> 'f \<Rightarrow> 'f"
  f_is_zero :: "'f \<Rightarrow> bool"
  f_eq :: "'f \<Rightarrow> 'f \<Rightarrow> bool"
  f_lt :: "'f \<Rightarrow> 'f \<Rightarrow> bool"
  f_of_int :: "int \<Rightarrow> 'f"
  f_nan :: "'f"

text \<open>\<open>x / y\<close> raises \<open>ZeroDivisionError\<close> when \<open>y\<close> is zero.\<close>

definition truediv :: "'f float_ops \<Rightarrow> 'f \<Rightarrow> 'f \<Rightarrow> py_error + 'f" where
  "truediv ops x y = (if f_is_zero ops y then Inl ZeroDivisionError else Inr (f_div ops x y))"

subsection \<open>IEEE 754 binary64, the float of CPython\<close>

text \<open>
  A double is a rational number, an infinity or a NaN; the two zeros are not told
  apart. An operation on finite doubles returns the exact result rounded to the
  nearest double, ties to the even significand: 53 bits of precision, the smallest
  quantum \<open>2 ^ -1074\<close>, and infinity from \<open>2 ^ 1024\<close> on.
\<close>

datatype double = Finite rat | PosInf | NegInf | NaN

text \<open>The number of binary digits of a positive integer.\<close>

function bits :: "int \<Rightarrow> int" where
  "bits n = (if n \<le> 0 then 0 else 1 + bits (n div 2))"
  by pat_completeness auto
termination
  by (relation "measure nat") auto

declare bits.simps [simp del]

definition pow2 :: "int \<Rightarrow> rat" where
  "pow2 e = (if 0 \<le> e then 2 ^ nat e else 1 / 2 ^ nat (- e))"

text \<open>The exponent \<open>e\<close> with \<open>2 ^ e \<le> x < 2 ^ (e + 1)\<close>, for a positive \<open>x\<close>.\<close>

definition floor_log2 :: "rat \<Rightarrow> int" where
  "floor_log2 x =
     (let (p, q) = quotient_of x;
          e = bits p - bits q
      in if pow2 e \<le> x then e else e - 1)"

definition round_half_even :: "rat \<Rightarrow> int" where
  "round_half_even r =
     (let f = \<lfloor>r\<rfloor>; d = r - of_int f
      in if d < 1 / 2 then f else if 1 / 2 < d then f + 1 else if even f then f else f + 1)"

text \<open>
  The significand \<open>m\<close> has at most 53 bits, or is \<open>2 ^ 53\<close> after rounding up; the
  result reaches \<open>2 ^ 1024\<close> when the exponent is above 1023, or is 1023 and the
  significand was rounded up to \<open>2 ^ 53\<close>.
\<close>

definition round_positive :: "rat \<Rightarrow> double" where
  "round_positive x =
     (let e = floor_log2 x;
          quantum = pow2 (max (e - 52) (- 1074));
          m = round_half_even (x / quantum)
      in if 1023 < e \<or> (e = 1023 \<and> m = 9007199254740992) then PosInf
         else Finite (of_int m * quantum))"

fun negate :: "double \<Rightarrow> double" where
  "negate (Finite x) = Finite (- x)"
| "negate PosInf = NegInf"
| "negate NegInf = PosInf"
| "negate NaN = NaN"

definition round_double :: "rat \<Rightarrow> double" where
  "round_double x =
     (if x = 0 then Finite 0
      else if 0 < x then round_positive x
      else negate (round_positive (- x)))"

text \<open>The sign of a double that is not a NaN: -1, 0 or 1.\<close>

fun sign_of :: "double \<Rightarrow> int" where
  "sign_of (Finite x) = (if x < 0 then - 1 else if x = 0 then 0 else 1)"
| "sign_of PosInf = 1"
| "sign_of NegInf = - 1"
| "sign_of NaN = 0"

definition signed_inf :: "int \<Rightarrow> double" where
  "signed_inf s = (if s = 0 then NaN else if 0 < s then PosInf else NegInf)"

fun double_mul :: "double \<Rightarrow> double \<Rightarrow> double" where
  "double_mul NaN y = NaN"
| "double_mul x NaN = NaN"
| "double_mul (Finite x) (Finite y) = round_double (x * y)"
| "double_mul x y = signed_inf (sign_of x * sign_of y)"

text \<open>
  The quotient by a zero is not a value of Python, which raises instead; \<open>truediv\<close>
  tests the divisor before it divides.
\<close>

fun double_div :: "double \<Rightarrow> double \<Rightarrow> double" where
  "double_div NaN y = NaN"
| "double_div x NaN = NaN"
| "double_div (Finite x) (Finite y) = (if y = 0 then NaN else round_double (x / y))"
| "double_div (Finite x) y = Finite 0"
| "double_div x (Finite y) = signed_inf (sign_of x * (if y < 0 then - 1 else 1))"
| "double_div x y = NaN"

fun double_sub :: "double \<Rightarrow> double \<Rightarrow> double" where
  "double_sub NaN y = NaN"
| "double_sub x NaN = NaN"
| "double_sub (Finite x) (Finite y) = round_double (x - y)"
| "double_sub (Finite x) y = negate y"
| "double_sub x (Finite y) = x"
| "double_sub x y = (if x = y then NaN else x)"

fun double_eq :: "double \<Rightarrow> double \<Rightarrow> bool" where
  "double_eq NaN y = False"
| "double_eq x NaN = False"
| "double_eq x y = (x = y)"

fun double_lt :: "double \<Rightarrow> double \<Rightarrow> bool" where
  "double_lt NaN y = False"
| "double_lt x NaN = False"
| "double_lt (Finite x) (Finite y) = (x < y)"
| "double_lt x y = ((x = NegInf \<or> y = PosInf) \<and> x \<noteq> y)"

definition binary64 :: "double float_ops" where
  "binary64 =
     \<lparr>f_mul = double_mul, f_div = double_div, f_sub = double_sub,
      f_is_zero = (\<lambda>x. x = Finite 0), f_eq = double_eq, f_lt = double_lt,
      f_of_int = (\<lambda>i. round_double (of_int i)), f_nan = NaN\<rparr>"

section \<open>The tables (app.py lines 26-37)\<close>

text \<open>
  One row of the sheet \<open>Asset Level Data\<close>. The columns read with
  \<open>selected_data.get(name, default)\<close> may be missing (\<open>None\<close>); the numeric cells are
  taken as floats, as \<open>float(...)\<close> returns them.
\<close>

record 'f asset_row =
  Property :: pystr
  ZipCode :: pystr
  Total_HOA_LTM :: 'f
  Insurance_LTM :: 'f
  Property_Tax_LTM :: 'f
  Opex_Total_Expenses_LTM :: "'f option"
  Capex_Grand_Total_LTM :: "'f option"
  Capex_Rec_Total_LTM :: "'f option"
  Estimated_Annual_Rent_LTM :: "'f option"
  Market_Value_Of_Asset_LTM :: "'f option"
  Rental_Collections_Percentage :: "'f option"

definition load_data ::
  "unicode_tables \<Rightarrow> bool \<Rightarrow> 'f asset_row list \<Rightarrow> 'f asset_row list" where
  "load_data U sign_aware df =
     map (\<lambda>r. r\<lparr>ZipCode := normalize_zip U sign_aware (ZipCode r)\<rparr>) df"


section \<open>Calculation engine (app.py lines 126-136)\<close>

record 'f input_values =
  total_hoa :: 'f
  insurance :: 'f
  property_tax :: 'f
  opex_total :: 'f
  capex_total :: 'f
  capex_rec :: 'f
  estimated_rent :: 'f
  market_value :: 'f
  rental_collection_pct :: 'f

record 'f output_values =
  net_revenue_ltm :: 'f
  gross_yield_pct :: 'f
  noi_ltm :: 'f
  economic_noi_ltm :: 'f
  all_in_noi_ltm :: 'f
  noi_margin_ltm :: 'f
  economic_noi_margin_ltm :: 'f
  all_in_noi_margin_ltm :: 'f
  noi_yield_ltm :: 'f
  economic_noi_yield_ltm :: 'f
  all_in_noi_yield_ltm :: 'f

text \<open>\<open>x / d if d else np.nan\<close>: the condition is tested first.\<close>

definition ratio_or_nan :: "'f float_ops \<Rightarrow> 'f \<Rightarrow> 'f \<Rightarrow> py_error + 'f" where
  "ratio_or_nan ops x d = (if \<not> f_is_zero ops d then truediv ops x d else Inr (f_nan ops))"

text \<open>
  The eleven outputs, in the order of the script. A difference of several terms is
  taken from the left.
\<close>

definition calculate_outputs :: "'f float_ops \<Rightarrow> 'f input_values \<Rightarrow> py_error + 'f output_values" where
  "calculate_outputs ops i =
     bind_result (truediv ops (rental_collection_pct i) (f_of_int ops 100)) (\<lambda>fraction.
     let net = f_mul ops (estimated_rent i) fraction in
     bind_result
       (ratio_or_nan ops
          (f_sub ops (f_sub ops (f_sub ops net (total_hoa i)) (insurance i)) (property_tax i))
          (market_value i)) (\<lambda>gross.
     let noi = f_sub ops net (opex_total i);
         economic_noi = f_sub ops (f_sub ops net (opex_total i)) (capex_total i);
         all_in_noi =
           f_sub ops (f_sub ops (f_sub ops net (opex_total i)) (capex_total i)) (capex_rec i) in
     bind_result (ratio_or_nan ops noi net) (\<lambda>noi_margin.
     bind_result (ratio_or_nan ops economic_noi net) (\<lambda>economic_noi_margin.
     bind_result (ratio_or_nan ops all_in_noi net) (\<lambda>all_in_noi_margin.
     bind_result (ratio_or_nan ops noi (market_value i)) (\<lambda>noi_yield.
     bind_result (ratio_or_nan ops economic_noi (market_value i)) (\<lambda>economic_noi_yield.
     bind_result (ratio_or_nan ops all_in_noi (market_value i)) (\<lambda>all_in_noi_yield.
     Inr \<lparr>net_revenue_ltm = net, gross_yield_pct = gross, noi_ltm = noi,
          economic_noi_ltm = economic_noi, all_in_noi_ltm = all_in_noi,
          noi_margin_ltm = noi_margin, economic_noi_margin_ltm = economic_noi_margin,
          all_in_noi_margin_ltm = all_in_noi_margin, noi_yield_ltm = noi_yield,
          economic_noi_yield_ltm = economic_noi_yield,
          all_in_noi_yield_ltm = all_in_noi_yield\<rparr>))))))))"

section \<open>Session state and one run of the script\<close>

text \<open>
  \<open>st.session_state\<close> holds four keys; a key that is not set yet is \<open>None\<close>. The
  stored inputs are a \<open>dict\<close> from the nine names to the values. All such dicts are
  built by the same literal, so they are lists of pairs in that order, and the empty
  list is \<open>{}\<close>. Two of them are equal (\<open>==\<close>) when they have the same keys and the
  values under each key are equal floats.
\<close>

datatype role = User | Assistant

record message =
  role :: role
  content :: pystr

type_synonym 'f inputs_dict = "(string \<times> 'f) list"

definition dict_eq :: "'f float_ops \<Rightarrow> 'f inputs_dict \<Rightarrow> 'f inputs_dict \<Rightarrow> bool" where
  "dict_eq ops d1 d2 = list_all2 (\<lambda>(k1, v1) (k2, v2). k1 = k2 \<and> f_eq ops v1 v2) d1 d2"

record 'f session_state =
  scroll_to_section :: "string option option"
  last_selected_property :: "pystr option"
  messages :: "message list option"
  inputs :: "'f inputs_dict option"

text \<open>
  What a run of the script ends with: it reaches the last line (and has shown the
  page), it stops at \<open>st.rerun()\<close>, after which the framework runs the script again
  from the top on the state left behind, or it stops at an exception.
\<close>

datatype rendered = Markdown pystr | Typed "pystr list"

record page =
  conversation :: "rendered list"
  scrolled_to :: "string option"

datatype 'f outcome =
  Finished "'f session_state" page | Rerun "'f session_state" | Raised py_error "'f session_state"

subsection \<open>Widgets\<close>

text \<open>
  A \<open>number_input\<close> without a key is identified by its label and its parameters, among
  them the default \<open>value\<close>. It returns the number the user last entered into this
  widget, and its default when the user has entered none. The bounded one refuses a
  default outside its bounds.
\<close>

type_synonym 'f widget_state = "string \<times> 'f \<Rightarrow> 'f option"

definition number_input :: "'f widget_state \<Rightarrow> string \<Rightarrow> 'f \<Rightarrow> 'f" where
  "number_input ws label v = (case ws (label, v) of Some x \<Rightarrow> x | None \<Rightarrow> v)"

definition number_input_bounded ::
  "'f float_ops \<Rightarrow> 'f widget_state \<Rightarrow> string \<Rightarrow> 'f \<Rightarrow> 'f \<Rightarrow> 'f \<Rightarrow> py_error + 'f" where
  "number_input_bounded ops ws label min_value max_value v =
     (if f_lt ops v min_value \<or> f_lt ops max_value v then Inl StreamlitAPIException
      else Inr (number_input ws label v))"

text \<open>\<open>float(selected_data.get(name, default))\<close> with an integer default.\<close>

definition get_or :: "'f float_ops \<Rightarrow> 'f option \<Rightarrow> int \<Rightarrow> 'f" where
  "get_or ops cell d = (case cell of Some x \<Rightarrow> x | None \<Rightarrow> f_of_int ops d)"

text \<open>The buttons and the chat box of one run.\<close>

record events =
  clear_chat :: bool
  evaluate_property :: bool
  summarize_noi :: bool
  explain_gross_yield :: bool
  chat_input :: "pystr option"

subsection \<open>The chat endpoint\<close>

text \<open>
  The request carries the model name, the context (the selected property, the nine
  inputs and the eleven outputs, which the script writes into one text) and the
  question. The response carries the status code and, decoded from its JSON body, the
  \<open>message.content\<close> of each entry of \<open>choices\<close>. \<open>requests.post\<close> may raise instead
  of returning.
\<close>

record 'f chat_request =
  model_name :: string
  context_property :: pystr
  context_inputs :: "'f input_values"
  context_outputs :: "'f output_values"
  question :: pystr

record response =
  status_code :: int
  choices :: "pystr list"

type_synonym 'f endpoint = "'f chat_request \<Rightarrow> py_error + response"

text \<open>
  The text stored when the status is not 200: a cross mark (code point 10060), a
  space and two sentences.
\<close>

definition fallback_message :: pystr where
  "fallback_message = 10060 # 32 # str ''Failed to get a response. Please try again later.''"

subsection \<open>Lines 46-47 and 64-72: scroll marker and property selection\<close>

definition init_scroll :: "'f session_state \<Rightarrow> 'f session_state" where
  "init_scroll ss =
     (case scroll_to_section ss of None \<Rightarrow> ss\<lparr>scroll_to_section := Some None\<rparr> | Some _ \<Rightarrow> ss)"

definition init_last_selected :: "pystr \<Rightarrow> 'f session_state \<Rightarrow> 'f session_state" where
  "init_last_selected selected_property ss =
     (case last_selected_property ss of
        None \<Rightarrow> ss\<lparr>last_selected_property := Some selected_property\<rparr>
      | Some _ \<Rightarrow> ss)"

text \<open>\<open>Inl\<close>: the run stops at \<open>st.rerun()\<close> with this state; \<open>Inr\<close>: it goes on.\<close>

definition property_reset ::
  "pystr \<Rightarrow> 'f session_state \<Rightarrow> 'f session_state + 'f session_state" where
  "property_reset selected_property ss =
     (if Some selected_property \<noteq> last_selected_property ss
      then Inl (ss\<lparr>messages := Some [], inputs := Some [],
                   last_selected_property := Some selected_property,
                   scroll_to_section := Some (Some ''outputs'')\<rparr>)
      else Inr ss)"

subsection \<open>Lines 74-85: the selected row and the nine number inputs\<close>

definition selected_row :: "'f asset_row list \<Rightarrow> pystr \<Rightarrow> py_error + 'f asset_row" where
  "selected_row data selected_property =
     (case filter (\<lambda>r. Property r = selected_property) data of
        [] \<Rightarrow> Inl IndexError
      | r # _ \<Rightarrow> Inr r)"

definition input_panel ::
  "'f float_ops \<Rightarrow> 'f widget_state \<Rightarrow> 'f asset_row \<Rightarrow> py_error + 'f input_values" where
  "input_panel ops ws selected_data =
     (let total_hoa = number_input ws ''Total HOA LTM'' (Total_HOA_LTM selected_data);
          insurance = number_input ws ''Insurance LTM'' (Insurance_LTM selected_data);
          property_tax = number_input ws ''Property Tax LTM'' (Property_Tax_LTM selected_data);
          opex_total = number_input ws ''Opex Total Expenses LTM''
            (get_or ops (Opex_Total_Expenses_LTM selected_data) 0);
          capex_total = number_input ws ''Capex Grand Total LTM''
            (get_or ops (Capex_Grand_Total_LTM selected_data) 0);
          capex_rec = number_input ws ''Capex Rec Total LTM''
            (get_or ops (Capex_Rec_Total_LTM selected_data) 0);
          estimated_rent = number_input ws ''Estimated Annual Rent LTM''
            (get_or ops (Estimated_Annual_Rent_LTM selected_data) 0);
          market_value = number_input ws ''Market Value Of Asset LTM''
            (get_or ops (Market_Value_Of_Asset_LTM selected_data) 0)
      in bind_result
           (number_input_bounded ops ws ''Rental Collections Percentage''
              (f_of_int ops 0) (f_of_int ops 100)
              (get_or ops (Rental_Collections_Percentage selected_data) 100))
           (\<lambda>rental_collection_pct. Inr
             \<lparr>total_hoa = total_hoa, insurance = insurance, property_tax = property_tax,
              opex_total = opex_total, capex_total = capex_total, capex_rec = capex_rec,
              estimated_rent = estimated_rent, market_value = market_value,
              rental_collection_pct = rental_collection_pct\<rparr>))"

text \<open>The nine values of the row itself, which the widgets are seeded with.\<close>

definition row_values :: "'f float_ops \<Rightarrow> 'f asset_row \<Rightarrow> 'f input_values" where
  "row_values ops selected_data =
     \<lparr>total_hoa = Total_HOA_LTM selected_data,
      insurance = Insurance_LTM selected_data,
      property_tax = Property_Tax_LTM selected_data,
      opex_total = get_or ops (Opex_Total_Expenses_LTM selected_data) 0,
      capex_total = get_or ops (Capex_Grand_Total_LTM selected_data) 0,
      capex_rec = get_or ops (Capex_Rec_Total_LTM selected_data) 0,
      estimated_rent = get_or ops (Estimated_Annual_Rent_LTM selected_data) 0,
      market_value = get_or ops (Market_Value_Of_Asset_LTM selected_data) 0,
      rental_collection_pct = get_or ops (Rental_Collections_Percentage selected_data) 100\<rparr>"

text \<open>No widget of the row carries a number entered by the user.\<close>

definition fresh_widgets :: "'f float_ops \<Rightarrow> 'f widget_state \<Rightarrow> 'f asset_row \<Rightarrow> bool" where
  "fresh_widgets ops ws selected_data =
     (ws (''Total HOA LTM'', Total_HOA_LTM selected_data) = None
      \<and> ws (''Insurance LTM'', Insurance_LTM selected_data) = None
      \<and> ws (''Property Tax LTM'', Property_Tax_LTM selected_data) = None
      \<and> ws (''Opex Total Expenses LTM'', get_or ops (Opex_Total_Expenses_LTM selected_data) 0) = None
      \<and> ws (''Capex Grand Total LTM'', get_or ops (Capex_Grand_Total_LTM selected_data) 0) = None
      \<and> ws (''Capex Rec Total LTM'', get_or ops (Capex_Rec_Total_LTM selected_data) 0) = None
      \<and> ws (''Estimated Annual Rent LTM'',
             get_or ops (Estimated_Annual_Rent_LTM selected_data) 0) = None
      \<and> ws (''Market Value Of Asset LTM'',
             get_or ops (Market_Value_Of_Asset_LTM selected_data) 0) = None
      \<and> ws (''Rental Collections Percentage'',
             get_or ops (Rental_Collections_Percentage selected_data) 100) = None)"

subsection \<open>Lines 88-117: the stored inputs\<close>

definition inputs_dict_of :: "'f input_values \<Rightarrow> 'f inputs_dict" where
  "inputs_dict_of i =
     [(''total_hoa'', total_hoa i), (''insurance'', insurance i),
      (''property_tax'', property_tax i), (''opex_total'', opex_total i),
      (''capex_total'', capex_total i), (''capex_rec'', capex_rec i),
      (''estimated_rent'', estimated_rent i), (''market_value'', market_value i),
      (''rental_collection_pct'', rental_collection_pct i)]"

definition init_inputs :: "'f input_values \<Rightarrow> 'f session_state \<Rightarrow> 'f session_state" where
  "init_inputs i ss =
     (case inputs ss of None \<Rightarrow> ss\<lparr>inputs := Some (inputs_dict_of i)\<rparr> | Some _ \<Rightarrow> ss)"

text \<open>
  \<open>current_inputs != st.session_state.inputs\<close>; line 89 has set the key before, so
  the case of a missing key does not arise and is given the same branch.
\<close>

definition inputs_differ :: "'f float_ops \<Rightarrow> 'f inputs_dict \<Rightarrow> 'f session_state \<Rightarrow> bool" where
  "inputs_differ ops current_inputs ss =
     (case inputs ss of None \<Rightarrow> True | Some stored \<Rightarrow> \<not> dict_eq ops current_inputs stored)"

definition inputs_reset ::
  "'f float_ops \<Rightarrow> 'f input_values \<Rightarrow> 'f session_state \<Rightarrow> 'f session_state + 'f session_state" where
  "inputs_reset ops i ss =
     (let current_inputs = inputs_dict_of i in
      if inputs_differ ops current_inputs ss
      then Inl (ss\<lparr>messages := Some [], inputs := Some current_inputs,
                   scroll_to_section := Some (Some ''outputs'')\<rparr>)
      else Inr ss)"

text \<open>
  Lines 64-117 together, the reset logic: the run stops at a rerun, stops at an
  exception, or goes on with the current inputs.
\<close>

datatype 'f reset_result =
  Reset_Rerun "'f session_state" | Reset_Raised py_error "'f session_state"
  | Reset_Continue "'f input_values" "'f session_state"

definition reset_logic ::
  "'f float_ops \<Rightarrow> 'f asset_row list \<Rightarrow> 'f widget_state \<Rightarrow> pystr \<Rightarrow> 'f session_state
     \<Rightarrow> 'f reset_result" where
  "reset_logic ops data ws selected_property ss =
     (case property_reset selected_property (init_last_selected selected_property ss) of
        Inl ss1 \<Rightarrow> Reset_Rerun ss1
      | Inr ss1 \<Rightarrow>
          (case bind_result (selected_row data selected_property) (input_panel ops ws) of
             Inl e \<Rightarrow> Reset_Raised e ss1
           | Inr i \<Rightarrow>
               (case inputs_reset ops i (init_inputs i ss1) of
                  Inl ss2 \<Rightarrow> Reset_Rerun ss2
                | Inr ss2 \<Rightarrow> Reset_Continue i ss2)))"

subsection \<open>Lines 234-321: the chat assistant\<close>

definition init_messages :: "'f session_state \<Rightarrow> 'f session_state" where
  "init_messages ss = (case messages ss of None \<Rightarrow> ss\<lparr>messages := Some []\<rparr> | Some _ \<Rightarrow> ss)"

text \<open>
  \<open>st.session_state.messages.append(m)\<close>. The key is set wherever the script appends
  (line 263 comes first), so the case of a missing key does not arise.
\<close>

definition append_message :: "message \<Rightarrow> 'f session_state \<Rightarrow> 'f session_state" where
  "append_message m ss = ss\<lparr>messages := map_option (\<lambda>ms. ms @ [m]) (messages ss)\<rparr>"

text \<open>The three quick questions: each button that reports a click overwrites \<open>user_input\<close>.\<close>

definition quick_question :: "events \<Rightarrow> pystr option" where
  "quick_question ev =
     (let user_input = None;
          user_input = (if evaluate_property ev
             then Some (str ''Based on my numbers, how would you evaluate my property investment?'')
             else user_input);
          user_input = (if summarize_noi ev
             then Some (str ''Can you summarize my Net Operating Income (NOI) and what affects it?'')
             else user_input);
          user_input = (if explain_gross_yield ev
             then Some (str ''Can you explain my Gross Yield Percentage based on the dashboard?'')
             else user_input)
      in user_input)"

definition user_question :: "events \<Rightarrow> pystr option" where
  "user_question ev = (case quick_question ev of None \<Rightarrow> chat_input ev | Some q \<Rightarrow> Some q)"

text \<open>
  Lines 262-321, for a question that is not empty. The first component of the result
  lists the requests posted to the endpoint, in order.
\<close>

definition ask ::
  "'f endpoint \<Rightarrow> pystr \<Rightarrow> 'f input_values \<Rightarrow> 'f output_values \<Rightarrow> pystr \<Rightarrow> 'f session_state
     \<Rightarrow> 'f chat_request list \<times> 'f outcome" where
  "ask post selected_property i out user_input ss =
     (let ss1 = append_message \<lparr>role = User, content = user_input\<rparr> (ss\<lparr>messages := Some []\<rparr>);
          payload = \<lparr>model_name = ''mistralai/mistral-7b-instruct'',
                     context_property = selected_property, context_inputs = i,
                     context_outputs = out, question = user_input\<rparr>
      in case post payload of
           Inl e \<Rightarrow> ([payload], Raised e ss1)
         | Inr resp \<Rightarrow>
             if status_code resp = 200
             then (case choices resp of
                     [] \<Rightarrow> ([payload], Raised IndexError ss1)
                   | reply # _ \<Rightarrow>
                       ([payload],
                        Rerun ((append_message \<lparr>role = Assistant, content = reply\<rparr> ss1)
                                 \<lparr>scroll_to_section := Some (Some ''chatbot'')\<rparr>)))
             else ([payload],
                   Rerun ((append_message \<lparr>role = Assistant, content = fallback_message\<rparr> ss1)
                            \<lparr>scroll_to_section := Some (Some ''chatbot'')\<rparr>)))"

subsection \<open>Lines 324-351: showing the conversation, scrolling\<close>

text \<open>
  The reveal loop writes the growing prefix of the cleaned text into the placeholder,
  once per character.
\<close>

definition typing_frames :: "pystr \<Rightarrow> pystr list" where
  "typing_frames assistant_text = map (\<lambda>n. take n assistant_text) [1..<Suc (length assistant_text)]"

definition show_message :: "unicode_tables \<Rightarrow> message \<Rightarrow> rendered" where
  "show_message U msg =
     (case role msg of
        Assistant \<Rightarrow> Typed (typing_frames (clean_response_text U (content msg)))
      | User \<Rightarrow> Markdown (content msg))"

definition show_conversation :: "unicode_tables \<Rightarrow> 'f session_state \<Rightarrow> rendered list" where
  "show_conversation U ss =
     (case messages ss of None \<Rightarrow> [] | Some ms \<Rightarrow> map (show_message U) ms)"

definition finish :: "unicode_tables \<Rightarrow> 'f session_state \<Rightarrow> 'f outcome" where
  "finish U ss =
     (case scroll_to_section ss of
        Some (Some scroll_target) \<Rightarrow>
          if scroll_target \<noteq> []
          then Finished (ss\<lparr>scroll_to_section := Some None\<rparr>)
                 \<lparr>conversation = show_conversation U ss, scrolled_to = Some scroll_target\<rparr>
          else Finished ss \<lparr>conversation = show_conversation U ss, scrolled_to = None\<rparr>
      | _ \<Rightarrow> Finished ss \<lparr>conversation = show_conversation U ss, scrolled_to = None\<rparr>)"

definition chat_assistant ::
  "unicode_tables \<Rightarrow> 'f endpoint \<Rightarrow> pystr \<Rightarrow> 'f input_values \<Rightarrow> 'f output_values \<Rightarrow> events
     \<Rightarrow> 'f session_state \<Rightarrow> 'f chat_request list \<times> 'f outcome" where
  "chat_assistant U post selected_property i out ev ss =
     (let ss1 = init_messages ss in
      if clear_chat ev
      then ([], Rerun (ss1\<lparr>messages := Some [], scroll_to_section := Some (Some ''chatbot'')\<rparr>))
      else (case user_question ev of
              None \<Rightarrow> ([], finish U ss1)
            | Some user_input \<Rightarrow>
                if user_input \<noteq> [] then ask post selected_property i out user_input ss1
                else ([], finish U ss1)))"

subsection \<open>The whole script\<close>

text \<open>
  One run, from line 46 to the end, on the loaded table. The table of outputs, the
  download button and the map read the values and change nothing in the session
  state; they are left out.
\<close>

definition run_script ::
  "unicode_tables \<Rightarrow> 'f float_ops \<Rightarrow> 'f asset_row list \<Rightarrow> 'f widget_state \<Rightarrow> events
     \<Rightarrow> 'f endpoint \<Rightarrow> pystr \<Rightarrow> 'f session_state \<Rightarrow> 'f chat_request list \<times> 'f outcome" where
  "run_script U ops data ws ev post selected_property ss =
     (case reset_logic ops data ws selected_property (init_scroll ss) of
        Reset_Rerun ss1 \<Rightarrow> ([], Rerun ss1)
      | Reset_Raised e ss1 \<Rightarrow> ([], Raised e ss1)
      | Reset_Continue i ss1 \<Rightarrow>
          (case calculate_outputs ops i of
             Inl e \<Rightarrow> ([], Raised e ss1)
           | Inr out \<Rightarrow> chat_assistant U post selected_property i out ev ss1))"

text \<open>
  In the run that follows \<open>st.rerun()\<close> no button reports a click and the chat box is
  empty; the widgets keep their values.
\<close>

definition no_events :: events where
  "no_events = \<lparr>clear_chat = False, evaluate_property = False, summarize_noi = False,
                 explain_gross_yield = False, chat_input = None\<rparr>"

fun state_of :: "'f outcome \<Rightarrow> 'f session_state" where
  "state_of (Finished ss pg) = ss"
| "state_of (Rerun ss) = ss"
| "state_of (Raised e ss) = ss"

fun is_rerun :: "'f outcome \<Rightarrow> bool" where
  "is_rerun (Rerun ss) = True"
| "is_rerun (Finished ss pg) = False"
| "is_rerun (Raised e ss) = False"

text \<open>
  A run and, if it stops at \<open>st.rerun()\<close>, the run that follows it: the state after
  the two.
\<close>

definition state_after_rerun ::
  "unicode_tables \<Rightarrow> 'f float_ops \<Rightarrow> 'f asset_row list \<Rightarrow> 'f widget_state \<Rightarrow> events
     \<Rightarrow> 'f endpoint \<Rightarrow> pystr \<Rightarrow> 'f session_state \<Rightarrow> 'f session_state" where
  "state_after_rerun U ops data ws ev post selected_property ss =
     (let r = snd (run_script U ops data ws ev post selected_property ss)
      in if is_rerun r
         then state_of (snd (run_script U ops data ws no_events post selected_property (state_of r)))
         else state_of r)"

section \<open>Example data\<close>

text \<open>The property of the end-to-end example, and one without rent and value.\<close>

definition example_inputs :: "double input_values" where
  "example_inputs =
     \<lparr>total_hoa = Finite 2000, insurance = Finite 1500, property_tax = Finite 3000,
      opex_total = Finite 10000, capex_total = Finite 4000, capex_rec = Finite 1000,
      estimated_rent = Finite 120000, market_value = Finite 1000000,
      rental_collection_pct = Finite 90\<rparr>"

definition vacant_inputs :: "double input_values" where
  "vacant_inputs =
     \<lparr>total_hoa = Finite 2000, insurance = Finite 1500, property_tax = Finite 3000,
      opex_total = Finite 10000, capex_total = Finite 4000, capex_rec = Finite 1000,
      estimated_rent = Finite 0, market_value = Finite 0,
      rental_collection_pct = Finite 90\<rparr>"

text \<open>A sheet of three properties and a ZIP file of two rows.\<close>

definition example_row :: "string \<Rightarrow> string \<Rightarrow> rat \<Rightarrow> double asset_row" where
  "example_row name zipcode hoa =
     \<lparr>Property = str name, ZipCode = str zipcode, Total_HOA_LTM = Finite hoa,
      Insurance_LTM = Finite 1500, Property_Tax_LTM = Finite 3000,
      Opex_Total_Expenses_LTM = Some (Finite 10000),
      Capex_Grand_Total_LTM = Some (Finite 4000), Capex_Rec_Total_LTM = None,
      Estimated_Annual_Rent_LTM = Some (Finite 120000),
      Market_Value_Of_Asset_LTM = Some (Finite 1000000),
      Rental_Collections_Percentage = Some (Finite 90)\<rparr>"

definition example_sheet :: "double asset_row list" where
  "example_sheet =
     [example_row ''Elm Street 1'' ''501'' 2000, example_row ''Oak Avenue 2'' ''12345-6789'' 2000,
      example_row ''Pine Road 3'' ''123 '' 2500]"


text \<open>
  A session on the loaded example sheet: the first property is selected, a question
  has been answered, and no number has been entered. In the second session the user
  has entered 2500 into the HOA widget of the first property, whose default is 2000.
\<close>

definition example_data :: "double asset_row list" where
  "example_data = load_data basic_tables True example_sheet"

definition elm_values :: "double input_values" where
  "elm_values =
     \<lparr>total_hoa = Finite 2000, insurance = Finite 1500, property_tax = Finite 3000,
      opex_total = Finite 10000, capex_total = Finite 4000, capex_rec = Finite 0,
      estimated_rent = Finite 120000, market_value = Finite 1000000,
      rental_collection_pct = Finite 90\<rparr>"

definition example_transcript :: "message list" where
  "example_transcript =
     [\<lparr>role = User, content = str ''Is this a good deal?''\<rparr>,
      \<lparr>role = Assistant, content = str ''Yes.It is''\<rparr>]"

definition example_session :: "double session_state" where
  "example_session =
     \<lparr>scroll_to_section = Some None, last_selected_property = Some (str ''Elm Street 1''),
      messages = Some example_transcript, inputs = Some (inputs_dict_of elm_values)\<rparr>"

definition no_edits :: "double widget_state" where
  "no_edits = (\<lambda>k. None)"

definition hoa_edited :: "double widget_state" where
  "hoa_edited = (\<lambda>k. if k = (''Total HOA LTM'', Finite 2000) then Some (Finite 2500) else None)"


text \<open>An endpoint that answers every request with the same response, and a question.\<close>

definition endpoint_returning :: "response \<Rightarrow> double endpoint" where
  "endpoint_returning resp = (\<lambda>request. Inr resp)"

definition asking :: "string \<Rightarrow> events" where
  "asking q = no_events\<lparr>chat_input := Some (str q)\<rparr>"

text \<open>The second row of the loaded sheet; its ZIP code is longer than five characters.\<close>

definition oak_row :: "double asset_row" where
  "oak_row = example_row ''Oak Avenue 2'' ''12345-6789'' 2000"

subsection \<open>Properties of one substitution\<close>

lemma re_sub_2_filter: "filter (\<lambda>c. c \<noteq> 32) (re_sub_2 A B s) = filter (\<lambda>c. c \<noteq> 32) s"
  by (induction A B s rule: re_sub_2.induct) auto

lemma re_sub_2_length: "length s \<le> length (re_sub_2 A B s)"
  by (induction A B s rule: re_sub_2.induct) auto

lemma re_sub_2_subseq: "subseq s (re_sub_2 A B s)"
  by (induction A B s rule: re_sub_2.induct) auto

lemma re_sub_2_fix: "no_pair A B s \<Longrightarrow> re_sub_2 A B s = s"
  by (induction A B s rule: re_sub_2.induct) auto

lemma re_sub_2_hd: "\<exists>t. re_sub_2 A B (b # rest) = b # t"
  by (cases rest) auto

text \<open>
  One pass separates every matching pair of its input, provided that the second
  character of a match never starts a further match and that the inserted space
  belongs to neither class.
\<close>

lemma re_sub_2_no_pair:
  "no_pair A (\<lambda>c. A c \<and> B c) s \<Longrightarrow> \<not> A 32 \<Longrightarrow> \<not> B 32 \<Longrightarrow> no_pair A B (re_sub_2 A B s)"
proof (induction A B s rule: re_sub_2.induct)
  case (1 A B a b rest)
  show ?case
  proof (cases "A a \<and> B b")
    case True
    with 1 have nb: "\<not> A b" by simp
    have "no_pair A (\<lambda>c. A c \<and> B c) rest" using 1(3) by (cases rest) auto
    with 1 True have ih: "no_pair A B (re_sub_2 A B rest)" by simp
    have "no_pair A B (b # re_sub_2 A B rest)"
      using nb ih by (cases "re_sub_2 A B rest") auto
    then show ?thesis using True 1 by simp
  next
    case False
    with 1 have ih: "no_pair A B (re_sub_2 A B (b # rest))" by simp
    obtain t where t: "re_sub_2 A B (b # rest) = b # t" using re_sub_2_hd by blast
    have e: "re_sub_2 A B (a # b # rest) = a # b # t" using False t by auto
    have "no_pair A B (a # b # t)" using False ih t by auto
    then show ?thesis using e by simp
  qed
qed simp_all

text \<open>A pass does not bring together a pair of two other classes that hold no space.\<close>

lemma re_sub_2_keeps_no_pair:
  "no_pair C D s \<Longrightarrow> \<not> C 32 \<Longrightarrow> \<not> D 32 \<Longrightarrow> no_pair C D (re_sub_2 A B s)"
proof (induction A B s rule: re_sub_2.induct)
  case (1 A B a b rest)
  have r: "no_pair C D (b # rest)" and ab: "\<not> (C a \<and> D b)" using 1(3) by simp_all
  show ?case
  proof (cases "A a \<and> B b")
    case True
    have "no_pair C D rest" using r by (cases rest) auto
    with 1 True have ih: "no_pair C D (re_sub_2 A B rest)" by simp
    have "no_pair C D (b # re_sub_2 A B rest)"
    proof (cases rest)
      case Nil
      then show ?thesis by simp
    next
      case (Cons c rest')
      obtain t where t: "re_sub_2 A B (c # rest') = c # t" using re_sub_2_hd by blast
      with ih r Cons show ?thesis by simp
    qed
    then show ?thesis using True 1(4,5) by simp
  next
    case False
    with 1 r have ih: "no_pair C D (re_sub_2 A B (b # rest))" by simp
    obtain t where t: "re_sub_2 A B (b # rest) = b # t" using re_sub_2_hd by blast
    have e: "re_sub_2 A B (a # b # rest) = a # b # t" using False t by auto
    have "no_pair C D (a # b # t)" using ab ih t by auto
    then show ?thesis using e by simp
  qed
qed simp_all

lemma re_sub_2_idem:
  assumes "no_pair A (\<lambda>c. A c \<and> B c) s" and "\<not> A 32" and "\<not> B 32"
  shows "re_sub_2 A B (re_sub_2 A B s) = re_sub_2 A B s"
  using assms by (intro re_sub_2_fix re_sub_2_no_pair)

lemma no_pair_disjoint: "(\<And>c. A c \<Longrightarrow> \<not> B c) \<Longrightarrow> no_pair A (\<lambda>c. A c \<and> B c) s"
  by (induction A "\<lambda>c. A c \<and> B c" s rule: no_pair.induct) auto

lemma space_in_no_class:
  "\<not> is_punct 32" "\<not> non_space U 32" "\<not> digit_or_word U 32" "\<not> is_paren 32"
  "\<not> is_lower 32" "\<not> is_upper 32" "\<not> is_period 32"
  by (simp_all add: is_punct_def non_space_def is_space_def digit_or_word_def is_digit_def
      is_word_def is_paren_def is_lower_def is_upper_def is_period_def)

lemma paren_not_word: "is_paren c \<Longrightarrow> \<not> digit_or_word U c"
  by (auto simp: is_paren_def digit_or_word_def is_digit_def is_word_def is_upper_def is_lower_def)

lemma lower_not_upper: "is_lower c \<Longrightarrow> \<not> is_upper c"
  by (auto simp: is_lower_def is_upper_def)

lemma period_not_upper: "is_period c \<Longrightarrow> \<not> is_upper c"
  by (auto simp: is_period_def is_upper_def)

text \<open>
  The substitutions whose two classes share no character leave nothing to do for a
  second pass.
\<close>

lemma sub_word_paren_no_pair: "no_pair (digit_or_word U) is_paren (sub_word_paren U s)"
  unfolding sub_word_paren_def
  using paren_not_word by (intro re_sub_2_no_pair no_pair_disjoint space_in_no_class) blast

lemma sub_paren_word_no_pair: "no_pair is_paren (digit_or_word U) (sub_paren_word U s)"
  unfolding sub_paren_word_def
  using paren_not_word by (intro re_sub_2_no_pair no_pair_disjoint space_in_no_class) blast

lemma sub_word_paren_idem: "sub_word_paren U (sub_word_paren U s) = sub_word_paren U s"
  using sub_word_paren_no_pair [of U s] unfolding sub_word_paren_def by (rule re_sub_2_fix)

lemma sub_paren_word_idem: "sub_paren_word U (sub_paren_word U s) = sub_paren_word U s"
  using sub_paren_word_no_pair [of U s] unfolding sub_paren_word_def by (rule re_sub_2_fix)

lemma sub_parens_idem:
  "sub_paren_word U (sub_word_paren U (sub_paren_word U (sub_word_paren U s)))
     = sub_paren_word U (sub_word_paren U s)"
proof -
  let ?t = "sub_paren_word U (sub_word_paren U s)"
  have "no_pair (digit_or_word U) is_paren ?t"
    unfolding sub_paren_word_def [of U "sub_word_paren U s"]
    by (intro re_sub_2_keeps_no_pair sub_word_paren_no_pair space_in_no_class)
  then have "sub_word_paren U ?t = ?t"
    unfolding sub_word_paren_def [of U ?t] by (rule re_sub_2_fix)
  then show ?thesis by (simp add: sub_paren_word_idem)
qed

lemma sub_lower_upper_idem: "sub_lower_upper (sub_lower_upper s) = sub_lower_upper s"
  unfolding sub_lower_upper_def
  using lower_not_upper by (intro re_sub_2_idem no_pair_disjoint space_in_no_class) blast

lemma sub_period_upper_idem: "sub_period_upper (sub_period_upper s) = sub_period_upper s"
  unfolding sub_period_upper_def
  using period_not_upper by (intro re_sub_2_idem no_pair_disjoint space_in_no_class) blast

lemma clean_filter:
  "filter (\<lambda>c. c \<noteq> 32) (clean_response_text U s) = filter (\<lambda>c. c \<noteq> 32) s"
  by (simp only: clean_response_text_def sub_punct_def sub_word_paren_def sub_paren_word_def
      sub_lower_upper_def sub_period_upper_def re_sub_2_filter)

lemma clean_subseq: "subseq s (clean_response_text U s)"
proof -
  have 1: "subseq s (sub_punct U s)"
    unfolding sub_punct_def by (rule re_sub_2_subseq)
  have 2: "subseq (sub_punct U s) (sub_word_paren U (sub_punct U s))"
    unfolding sub_word_paren_def by (rule re_sub_2_subseq)
  have 3: "subseq (sub_word_paren U (sub_punct U s))
     (sub_paren_word U (sub_word_paren U (sub_punct U s)))"
    unfolding sub_paren_word_def by (rule re_sub_2_subseq)
  have 4: "subseq (sub_paren_word U (sub_word_paren U (sub_punct U s)))
     (sub_lower_upper (sub_paren_word U (sub_word_paren U (sub_punct U s))))"
    unfolding sub_lower_upper_def by (rule re_sub_2_subseq)
  have 5: "subseq (sub_lower_upper (sub_paren_word U (sub_word_paren U (sub_punct U s))))
     (clean_response_text U s)"
    unfolding clean_response_text_def sub_period_upper_def by (rule re_sub_2_subseq)
  from 1 2 have "subseq s (sub_word_paren U (sub_punct U s))" by (rule subseq_order.order_trans)
  from this 3 have "subseq s (sub_paren_word U (sub_word_paren U (sub_punct U s)))"
    by (rule subseq_order.order_trans)
  from this 4
  have "subseq s (sub_lower_upper (sub_paren_word U (sub_word_paren U (sub_punct U s))))"
    by (rule subseq_order.order_trans)
  from this 5 show ?thesis by (rule subseq_order.order_trans)
qed

lemmas cleanup_defs = str_def clean_response_text_def sub_punct_def sub_word_paren_def
  sub_paren_word_def sub_lower_upper_def sub_period_upper_def is_punct_def non_space_def
  is_space_def digit_or_word_def is_digit_def is_word_def is_paren_def is_lower_def
  is_upper_def is_period_def

subsection \<open>The cleanup pass on the example of the specification\<close>

text \<open>
  Claim C4, as the code has it: on the input \<open>Hi.There(5)bigBad\<close> the cleanup pass
  returns \<open>Hi. There ( 5 ) big Bad\<close>. The second and the third substitution put a space
  on both sides of each parenthesis, so the digit is separated from both of them.
\<close>

theorem clean_response_text_example:
  "clean_response_text U (str ''Hi.There(5)bigBad'') = str ''Hi. There ( 5 ) big Bad''"
  by (simp add: cleanup_defs)

text \<open>The output is not the string \<open>Hi. There (5) big Bad\<close>.\<close>

theorem clean_response_text_example_counterexample:
  "clean_response_text basic_tables (str ''Hi.There(5)bigBad'') \<noteq> str ''Hi. There (5) big Bad''"
  by (simp add: cleanup_defs)

subsection \<open>Idempotence of the single substitutions\<close>

text \<open>
  Claim C5 says that each substitution rule, taken alone and applied twice, gives
  what one application gives. The substitution of line 13, which is to put a space
  after \<open>.\<close>, \<open>,\<close>, \<open>!\<close> or \<open>?\<close> where one is missing, does not: on \<open>..a\<close> the first
  pass matches the two periods and goes on behind them, so it returns \<open>. .a\<close>, in
  which the second period still has no space after it, and only the second pass
  returns \<open>. . a\<close>.
\<close>

theorem sub_punct_twice_differs:
  "sub_punct U (str ''..a'') = str ''. .a''
   \<and> sub_punct U (sub_punct U (str ''..a'')) = str ''. . a''
   \<and> sub_punct U (sub_punct U (str ''..a'')) \<noteq> sub_punct U (str ''..a'')"
  by (simp add: cleanup_defs)

subsection \<open>The cleanup pass only inserts spaces\<close>

text \<open>
  Claim C9: for every string, the characters of the output of \<open>clean_response_text\<close>
  other than spaces are those of the input, in the same order; the input is a
  subsequence of the output, and the output is at least as long as the input.
\<close>

theorem clean_response_text_only_inserts_spaces:
  "filter (\<lambda>c. c \<noteq> 32) (clean_response_text U s) = filter (\<lambda>c. c \<noteq> 32) s
   \<and> subseq s (clean_response_text U s)
   \<and> length s \<le> length (clean_response_text U s)"
proof (intro conjI)
  show "filter (\<lambda>c. c \<noteq> 32) (clean_response_text U s) = filter (\<lambda>c. c \<noteq> 32) s"
    by (rule clean_filter)
  show "subseq s (clean_response_text U s)" by (rule clean_subseq)
  then show "length s \<le> length (clean_response_text U s)" by (rule list_emb_length)
qed

section \<open>The calculation engine\<close>

lemma ratio_or_nan_eq:
  "ratio_or_nan ops x d = Inr (if f_is_zero ops d then f_nan ops else f_div ops x d)"
  by (simp add: ratio_or_nan_def truediv_def)

lemma calculate_outputs_eq:
  assumes "\<not> f_is_zero ops (f_of_int ops 100)"
  shows "calculate_outputs ops i =
     Inr (let net = f_mul ops (estimated_rent i)
                      (f_div ops (rental_collection_pct i) (f_of_int ops 100));
              noi = f_sub ops net (opex_total i);
              economic_noi = f_sub ops (f_sub ops net (opex_total i)) (capex_total i);
              all_in_noi =
                f_sub ops (f_sub ops (f_sub ops net (opex_total i)) (capex_total i)) (capex_rec i)
          in \<lparr>net_revenue_ltm = net,
              gross_yield_pct =
                (if f_is_zero ops (market_value i) then f_nan ops
                 else f_div ops
                        (f_sub ops (f_sub ops (f_sub ops net (total_hoa i)) (insurance i))
                           (property_tax i))
                        (market_value i)),
              noi_ltm = noi, economic_noi_ltm = economic_noi, all_in_noi_ltm = all_in_noi,
              noi_margin_ltm = (if f_is_zero ops net then f_nan ops else f_div ops noi net),
              economic_noi_margin_ltm =
                (if f_is_zero ops net then f_nan ops else f_div ops economic_noi net),
              all_in_noi_margin_ltm =
                (if f_is_zero ops net then f_nan ops else f_div ops all_in_noi net),
              noi_yield_ltm =
                (if f_is_zero ops (market_value i) then f_nan ops
                 else f_div ops noi (market_value i)),
              economic_noi_yield_ltm =
                (if f_is_zero ops (market_value i) then f_nan ops
                 else f_div ops economic_noi (market_value i)),
              all_in_noi_yield_ltm =
                (if f_is_zero ops (market_value i) then f_nan ops
                 else f_div ops all_in_noi (market_value i))\<rparr>)"
  using assms
  unfolding calculate_outputs_def Let_def ratio_or_nan_eq bind_result_def truediv_def
  by simp

lemma calculate_outputs_facts:
  "\<not> f_is_zero ops (f_of_int ops 100) \<Longrightarrow>
   \<exists>out. calculate_outputs ops i = Inr out
     \<and> (f_is_zero ops (market_value i) \<longrightarrow>
           gross_yield_pct out = f_nan ops \<and> noi_yield_ltm out = f_nan ops
           \<and> economic_noi_yield_ltm out = f_nan ops \<and> all_in_noi_yield_ltm out = f_nan ops)
     \<and> (f_is_zero ops (net_revenue_ltm out) \<longrightarrow>
           noi_margin_ltm out = f_nan ops \<and> economic_noi_margin_ltm out = f_nan ops
           \<and> all_in_noi_margin_ltm out = f_nan ops)
     \<and> net_revenue_ltm out
         = f_mul ops (estimated_rent i) (f_div ops (rental_collection_pct i) (f_of_int ops 100))
     \<and> noi_ltm out = f_sub ops (net_revenue_ltm out) (opex_total i)
     \<and> economic_noi_ltm out
         = f_sub ops (f_sub ops (net_revenue_ltm out) (opex_total i)) (capex_total i)
     \<and> all_in_noi_ltm out
         = f_sub ops (f_sub ops (f_sub ops (net_revenue_ltm out) (opex_total i)) (capex_total i))
             (capex_rec i)
     \<and> (\<not> f_is_zero ops (market_value i) \<longrightarrow>
           gross_yield_pct out
             = f_div ops
                 (f_sub ops (f_sub ops (f_sub ops (net_revenue_ltm out) (total_hoa i)) (insurance i))
                    (property_tax i))
                 (market_value i)
           \<and> noi_yield_ltm out = f_div ops (noi_ltm out) (market_value i)
           \<and> economic_noi_yield_ltm out = f_div ops (economic_noi_ltm out) (market_value i)
           \<and> all_in_noi_yield_ltm out = f_div ops (all_in_noi_ltm out) (market_value i))
     \<and> (\<not> f_is_zero ops (net_revenue_ltm out) \<longrightarrow>
           noi_margin_ltm out = f_div ops (noi_ltm out) (net_revenue_ltm out)
           \<and> economic_noi_margin_ltm out = f_div ops (economic_noi_ltm out) (net_revenue_ltm out)
           \<and> all_in_noi_margin_ltm out = f_div ops (all_in_noi_ltm out) (net_revenue_ltm out))"
  by (simp add: calculate_outputs_eq Let_def)

lemma hundred_not_zero: "\<not> f_is_zero binary64 (f_of_int binary64 100)"
  by code_simp

lemma example_net:
  "f_mul binary64 (Finite 120000) (f_div binary64 (Finite 90) (f_of_int binary64 100))
     = Finite 108000"
  by code_simp

lemma example_gross:
  "f_div binary64
     (f_sub binary64 (f_sub binary64 (f_sub binary64 (Finite 108000) (Finite 2000)) (Finite 1500))
        (Finite 3000))
     (Finite 1000000)
   = round_double (1015 / 10000)"
  by code_simp

lemma example_gross_double:
  "double_div
     (double_sub (double_sub (double_sub (Finite 108000) (Finite 2000)) (Finite 1500))
        (Finite 3000))
     (Finite 1000000)
   = round_double (1015 / 10000)"
  by code_simp

lemma example_value_not_zero: "\<not> f_is_zero binary64 (Finite 1000000)"
  by code_simp

text \<open>
  Claim C1: for every assignment of the nine inputs the net revenue is the estimated
  rent times the quotient of the collection percentage by 100; with rent 120000,
  percentage 90, HOA 2000, insurance 1500, property tax 3000 and market value 1000000
  the net revenue is 108000 and the gross yield is
  (108000 - 2000 - 1500 - 3000) / 1000000, the double written 0.1015.
\<close>

theorem net_revenue_formula:
  "(\<not> f_is_zero ops (f_of_int ops 100) \<longrightarrow>
      (\<exists>out. calculate_outputs ops i = Inr out
         \<and> net_revenue_ltm out
             = f_mul ops (estimated_rent i) (f_div ops (rental_collection_pct i) (f_of_int ops 100))))
   \<and> (estimated_rent j = Finite 120000 \<and> rental_collection_pct j = Finite 90
        \<and> total_hoa j = Finite 2000 \<and> insurance j = Finite 1500
        \<and> property_tax j = Finite 3000 \<and> market_value j = Finite 1000000 \<longrightarrow>
      (\<exists>out. calculate_outputs binary64 j = Inr out
         \<and> net_revenue_ltm out = Finite 108000
         \<and> gross_yield_pct out
             = double_div
                 (double_sub (double_sub (double_sub (Finite 108000) (Finite 2000)) (Finite 1500))
                    (Finite 3000))
                 (Finite 1000000)
         \<and> gross_yield_pct out = round_double (1015 / 10000)))"
proof (intro conjI impI)
  assume "\<not> f_is_zero ops (f_of_int ops 100)"
  from calculate_outputs_facts [OF this, of i]
  show "\<exists>out. calculate_outputs ops i = Inr out
         \<and> net_revenue_ltm out
             = f_mul ops (estimated_rent i) (f_div ops (rental_collection_pct i) (f_of_int ops 100))"
    by blast
next
  assume a: "estimated_rent j = Finite 120000 \<and> rental_collection_pct j = Finite 90
        \<and> total_hoa j = Finite 2000 \<and> insurance j = Finite 1500
        \<and> property_tax j = Finite 3000 \<and> market_value j = Finite 1000000"
  from calculate_outputs_facts [OF hundred_not_zero, of j]
  obtain out where o: "calculate_outputs binary64 j = Inr out"
    and n: "net_revenue_ltm out
         = f_mul binary64 (estimated_rent j)
             (f_div binary64 (rental_collection_pct j) (f_of_int binary64 100))"
    and g: "\<not> f_is_zero binary64 (market_value j) \<longrightarrow>
           gross_yield_pct out
             = f_div binary64
                 (f_sub binary64
                    (f_sub binary64 (f_sub binary64 (net_revenue_ltm out) (total_hoa j))
                       (insurance j))
                    (property_tax j))
                 (market_value j)"
    by blast
  from n a have n': "net_revenue_ltm out = Finite 108000"
    by (simp only: example_net)
  from g a example_value_not_zero n' have "gross_yield_pct out = round_double (1015 / 10000)"
    by (simp only: example_gross simp_thms)
  with o n' show "\<exists>out. calculate_outputs binary64 j = Inr out
         \<and> net_revenue_ltm out = Finite 108000
         \<and> gross_yield_pct out
             = double_div
                 (double_sub (double_sub (double_sub (Finite 108000) (Finite 2000)) (Finite 1500))
                    (Finite 3000))
                 (Finite 1000000)
         \<and> gross_yield_pct out = round_double (1015 / 10000)"
    by (simp only: example_gross_double simp_thms ex_simps) blast
qed

theorem net_revenue_formula_witness:
  "\<not> f_is_zero binary64 (f_of_int binary64 100)
   \<and> estimated_rent example_inputs = Finite 120000
   \<and> rental_collection_pct example_inputs = Finite 90
   \<and> (\<exists>out. calculate_outputs binary64 example_inputs = Inr out
         \<and> net_revenue_ltm out
             = f_mul binary64 (Finite 120000) (f_div binary64 (Finite 90) (f_of_int binary64 100))
         \<and> net_revenue_ltm out = Finite 108000
         \<and> gross_yield_pct out = round_double (1015 / 10000))"
proof -
  have h: "estimated_rent example_inputs = Finite 120000
     \<and> rental_collection_pct example_inputs = Finite 90
     \<and> total_hoa example_inputs = Finite 2000 \<and> insurance example_inputs = Finite 1500
     \<and> property_tax example_inputs = Finite 3000 \<and> market_value example_inputs = Finite 1000000"
    by (simp add: example_inputs_def)
  from net_revenue_formula [of binary64 example_inputs example_inputs] h hundred_not_zero
  obtain out where "calculate_outputs binary64 example_inputs = Inr out"
    "net_revenue_ltm out = Finite 108000" "gross_yield_pct out = round_double (1015 / 10000)"
    by blast
  with h hundred_not_zero show ?thesis by (simp only: example_net simp_thms) blast
qed

text \<open>
  Claim C2: the calculation never stops at a division by zero. With a market value of
  zero the gross yield and the three NOI yields are \<open>np.nan\<close>, with a net revenue of
  zero the three margins are \<open>np.nan\<close>, and every other output is computed by its
  formula. The constant 100 of line 126 is not zero.
\<close>

theorem no_division_by_zero:
  "\<not> f_is_zero ops (f_of_int ops 100) \<Longrightarrow>
   \<exists>out. calculate_outputs ops i = Inr out
     \<and> (f_is_zero ops (market_value i) \<longrightarrow>
           gross_yield_pct out = f_nan ops \<and> noi_yield_ltm out = f_nan ops
           \<and> economic_noi_yield_ltm out = f_nan ops \<and> all_in_noi_yield_ltm out = f_nan ops)
     \<and> (f_is_zero ops (net_revenue_ltm out) \<longrightarrow>
           noi_margin_ltm out = f_nan ops \<and> economic_noi_margin_ltm out = f_nan ops
           \<and> all_in_noi_margin_ltm out = f_nan ops)
     \<and> net_revenue_ltm out
         = f_mul ops (estimated_rent i) (f_div ops (rental_collection_pct i) (f_of_int ops 100))
     \<and> noi_ltm out = f_sub ops (net_revenue_ltm out) (opex_total i)
     \<and> economic_noi_ltm out
         = f_sub ops (f_sub ops (net_revenue_ltm out) (opex_total i)) (capex_total i)
     \<and> all_in_noi_ltm out
         = f_sub ops (f_sub ops (f_sub ops (net_revenue_ltm out) (opex_total i)) (capex_total i))
             (capex_rec i)
     \<and> (\<not> f_is_zero ops (market_value i) \<longrightarrow>
           gross_yield_pct out
             = f_div ops
                 (f_sub ops (f_sub ops (f_sub ops (net_revenue_ltm out) (total_hoa i)) (insurance i))
                    (property_tax i))
                 (market_value i)
           \<and> noi_yield_ltm out = f_div ops (noi_ltm out) (market_value i)
           \<and> economic_noi_yield_ltm out = f_div ops (economic_noi_ltm out) (market_value i)
           \<and> all_in_noi_yield_ltm out = f_div ops (all_in_noi_ltm out) (market_value i))
     \<and> (\<not> f_is_zero ops (net_revenue_ltm out) \<longrightarrow>
           noi_margin_ltm out = f_div ops (noi_ltm out) (net_revenue_ltm out)
           \<and> economic_noi_margin_ltm out = f_div ops (economic_noi_ltm out) (net_revenue_ltm out)
           \<and> all_in_noi_margin_ltm out = f_div ops (all_in_noi_ltm out) (net_revenue_ltm out))"
  by (rule calculate_outputs_facts)

theorem no_division_by_zero_witness:
  "\<not> f_is_zero binary64 (f_of_int binary64 100)
   \<and> f_is_zero binary64 (market_value vacant_inputs)
   \<and> (\<exists>out. calculate_outputs binary64 vacant_inputs = Inr out
         \<and> f_is_zero binary64 (net_revenue_ltm out)
         \<and> noi_ltm out = Finite (- 10000)
         \<and> gross_yield_pct out = NaN \<and> noi_yield_ltm out = NaN
         \<and> economic_noi_yield_ltm out = NaN \<and> all_in_noi_yield_ltm out = NaN
         \<and> noi_margin_ltm out = NaN \<and> economic_noi_margin_ltm out = NaN
         \<and> all_in_noi_margin_ltm out = NaN)
   \<and> \<not> f_is_zero binary64 (market_value example_inputs)
   \<and> (\<exists>out. calculate_outputs binary64 example_inputs = Inr out
         \<and> net_revenue_ltm out = Finite 108000
         \<and> noi_ltm out = Finite 98000
         \<and> noi_yield_ltm out = round_double (98 / 1000)
         \<and> noi_margin_ltm out = round_double (98 / 108))"
proof -
  have v: "market_value vacant_inputs = Finite 0" "estimated_rent vacant_inputs = Finite 0"
    "rental_collection_pct vacant_inputs = Finite 90" "opex_total vacant_inputs = Finite 10000"
    by (simp_all add: vacant_inputs_def)
  have vz: "f_is_zero binary64 (Finite 0)" "f_nan binary64 = NaN"
    "f_mul binary64 (Finite 0) (f_div binary64 (Finite 90) (f_of_int binary64 100)) = Finite 0"
    "f_sub binary64 (Finite 0) (Finite 10000) = Finite (- 10000)"
    by code_simp+
  have x: "market_value example_inputs = Finite 1000000"
    "estimated_rent example_inputs = Finite 120000"
    "rental_collection_pct example_inputs = Finite 90" "opex_total example_inputs = Finite 10000"
    by (simp_all add: example_inputs_def)
  have xe: "\<not> f_is_zero binary64 (Finite 108000)"
    "f_sub binary64 (Finite 108000) (Finite 10000) = Finite 98000"
    "f_div binary64 (Finite 98000) (Finite 1000000) = round_double (98 / 1000)"
    "f_div binary64 (Finite 98000) (Finite 108000) = round_double (98 / 108)"
    by code_simp+
  from no_division_by_zero [OF hundred_not_zero, of vacant_inputs]
  obtain out where o: "calculate_outputs binary64 vacant_inputs = Inr out"
    and y: "f_is_zero binary64 (market_value vacant_inputs) \<longrightarrow>
           gross_yield_pct out = f_nan binary64 \<and> noi_yield_ltm out = f_nan binary64
           \<and> economic_noi_yield_ltm out = f_nan binary64
           \<and> all_in_noi_yield_ltm out = f_nan binary64"
    and g: "f_is_zero binary64 (net_revenue_ltm out) \<longrightarrow>
           noi_margin_ltm out = f_nan binary64 \<and> economic_noi_margin_ltm out = f_nan binary64
           \<and> all_in_noi_margin_ltm out = f_nan binary64"
    and n: "net_revenue_ltm out
         = f_mul binary64 (estimated_rent vacant_inputs)
             (f_div binary64 (rental_collection_pct vacant_inputs) (f_of_int binary64 100))"
    and i: "noi_ltm out = f_sub binary64 (net_revenue_ltm out) (opex_total vacant_inputs)"
    by blast
  from n have n': "net_revenue_ltm out = Finite 0" by (simp only: v vz)
  from i have i': "noi_ltm out = Finite (- 10000)" by (simp only: n' v vz)
  from y have y': "gross_yield_pct out = NaN \<and> noi_yield_ltm out = NaN
     \<and> economic_noi_yield_ltm out = NaN \<and> all_in_noi_yield_ltm out = NaN"
    by (simp only: v vz simp_thms)
  from g have g': "noi_margin_ltm out = NaN \<and> economic_noi_margin_ltm out = NaN
     \<and> all_in_noi_margin_ltm out = NaN"
    by (simp only: n' vz simp_thms)
  have z: "f_is_zero binary64 (net_revenue_ltm out)" by (simp only: n' vz)
  from o z i' y' g'
  have a: "\<exists>out. calculate_outputs binary64 vacant_inputs = Inr out
         \<and> f_is_zero binary64 (net_revenue_ltm out)
         \<and> noi_ltm out = Finite (- 10000)
         \<and> gross_yield_pct out = NaN \<and> noi_yield_ltm out = NaN
         \<and> economic_noi_yield_ltm out = NaN \<and> all_in_noi_yield_ltm out = NaN
         \<and> noi_margin_ltm out = NaN \<and> economic_noi_margin_ltm out = NaN
         \<and> all_in_noi_margin_ltm out = NaN"
    by (intro exI [of _ out] conjI) (elim conjE, assumption)+
  from no_division_by_zero [OF hundred_not_zero, of example_inputs]
  obtain out2 where o2: "calculate_outputs binary64 example_inputs = Inr out2"
    and n2: "net_revenue_ltm out2
         = f_mul binary64 (estimated_rent example_inputs)
             (f_div binary64 (rental_collection_pct example_inputs) (f_of_int binary64 100))"
    and i2: "noi_ltm out2 = f_sub binary64 (net_revenue_ltm out2) (opex_total example_inputs)"
    and y2: "\<not> f_is_zero binary64 (market_value example_inputs) \<longrightarrow>
           gross_yield_pct out2
             = f_div binary64
                 (f_sub binary64
                    (f_sub binary64
                       (f_sub binary64 (net_revenue_ltm out2) (total_hoa example_inputs))
                       (insurance example_inputs))
                    (property_tax example_inputs))
                 (market_value example_inputs)
           \<and> noi_yield_ltm out2 = f_div binary64 (noi_ltm out2) (market_value example_inputs)
           \<and> economic_noi_yield_ltm out2
               = f_div binary64 (economic_noi_ltm out2) (market_value example_inputs)
           \<and> all_in_noi_yield_ltm out2
               = f_div binary64 (all_in_noi_ltm out2) (market_value example_inputs)"
    and g2: "\<not> f_is_zero binary64 (net_revenue_ltm out2) \<longrightarrow>
           noi_margin_ltm out2 = f_div binary64 (noi_ltm out2) (net_revenue_ltm out2)
           \<and> economic_noi_margin_ltm out2
               = f_div binary64 (economic_noi_ltm out2) (net_revenue_ltm out2)
           \<and> all_in_noi_margin_ltm out2
               = f_div binary64 (all_in_noi_ltm out2) (net_revenue_ltm out2)"
    by blast
  from n2 have n2': "net_revenue_ltm out2 = Finite 108000" by (simp only: x example_net)
  from i2 have i2': "noi_ltm out2 = Finite 98000" by (simp only: n2' x xe)
  from y2 have "noi_yield_ltm out2 = f_div binary64 (noi_ltm out2) (market_value example_inputs)"
    by (simp only: x example_value_not_zero simp_thms)
  then have y2': "noi_yield_ltm out2 = round_double (98 / 1000)" by (simp only: i2' x xe)
  from g2 have "noi_margin_ltm out2 = f_div binary64 (noi_ltm out2) (net_revenue_ltm out2)"
    by (simp only: n2' xe simp_thms)
  then have g2': "noi_margin_ltm out2 = round_double (98 / 108)" by (simp only: i2' n2' xe)
  from o2 n2' i2' y2' g2'
  have b: "\<exists>out. calculate_outputs binary64 example_inputs = Inr out
         \<and> net_revenue_ltm out = Finite 108000
         \<and> noi_ltm out = Finite 98000
         \<and> noi_yield_ltm out = round_double (98 / 1000)
         \<and> noi_margin_ltm out = round_double (98 / 108)"
    by (intro exI [of _ out2] conjI)
  from a b hundred_not_zero show ?thesis
    by (simp only: v x vz example_value_not_zero simp_thms)
qed

section \<open>The loaded ZIP codes\<close>













lemmas zip_defs = str_def normalize_zip_def series_zfill_def strip_def zfill_def is_space_def

lemma example_zips:
  "normalize_zip U sa (str ''501'') = str ''00501''"
  "normalize_zip U sa (str ''12345-6789'') = str ''12345-6789''"
  "normalize_zip U sa (str ''123 '') = str ''0123''"
  by (simp_all add: zip_defs numeral_2_eq_2)



section \<open>The reset logic\<close>

lemma dict_eq_empty: "\<not> dict_eq ops (inputs_dict_of i) []"
  by (simp add: dict_eq_def inputs_dict_of_def)

lemma property_reset_changed:
  "last_selected_property ss = Some previous \<Longrightarrow> previous \<noteq> selected_property \<Longrightarrow>
   reset_logic ops data ws selected_property ss =
     Reset_Rerun (ss\<lparr>messages := Some [], inputs := Some [],
                    last_selected_property := Some selected_property,
                    scroll_to_section := Some (Some ''outputs'')\<rparr>)"
  by (simp add: reset_logic_def property_reset_def init_last_selected_def)

lemma inputs_reset_changed:
  assumes "last_selected_property ss = None \<or> last_selected_property ss = Some selected_property"
    and "selected_row data selected_property = Inr row"
    and "input_panel ops ws row = Inr i"
    and "inputs ss = Some stored"
    and "\<not> dict_eq ops (inputs_dict_of i) stored"
  shows "reset_logic ops data ws selected_property ss =
     Reset_Rerun (ss\<lparr>last_selected_property := Some selected_property, messages := Some [],
                    inputs := Some (inputs_dict_of i),
                    scroll_to_section := Some (Some ''outputs'')\<rparr>)"
  using assms
  by (auto simp: reset_logic_def property_reset_def init_last_selected_def bind_result_def
      inputs_reset_def inputs_differ_def init_inputs_def Let_def)

lemma reset_logic_continueI:
  assumes "last_selected_property ss = Some selected_property"
    and "selected_row data selected_property = Inr row"
    and "input_panel ops ws row = Inr i"
    and "inputs ss = Some stored"
    and "dict_eq ops (inputs_dict_of i) stored"
  shows "reset_logic ops data ws selected_property ss = Reset_Continue i ss"
  using assms
  by (simp add: reset_logic_def property_reset_def init_last_selected_def bind_result_def
      inputs_reset_def inputs_differ_def init_inputs_def Let_def)

lemma init_last_selected_fields:
  "messages (init_last_selected sel ss) = messages ss"
  "inputs (init_last_selected sel ss) = inputs ss"
  "scroll_to_section (init_last_selected sel ss) = scroll_to_section ss"
  "last_selected_property (init_last_selected sel ss)
     = (case last_selected_property ss of None \<Rightarrow> Some sel | Some p \<Rightarrow> Some p)"
  by (simp_all add: init_last_selected_def split: option.splits)

lemma init_inputs_fields:
  "messages (init_inputs i ss) = messages ss"
  "last_selected_property (init_inputs i ss) = last_selected_property ss"
  "scroll_to_section (init_inputs i ss) = scroll_to_section ss"
  "inputs (init_inputs i ss)
     = (case inputs ss of None \<Rightarrow> Some (inputs_dict_of i) | Some d \<Rightarrow> Some d)"
  by (simp_all add: init_inputs_def split: option.splits)

lemma reset_logic_continueD:
  assumes "reset_logic ops data ws selected_property ss = Reset_Continue i ss1"
  shows "last_selected_property ss1 = Some selected_property
     \<and> (\<exists>row. selected_row data selected_property = Inr row \<and> input_panel ops ws row = Inr i)
     \<and> (\<exists>stored. inputs ss1 = Some stored \<and> dict_eq ops (inputs_dict_of i) stored)
     \<and> messages ss1 = messages ss \<and> scroll_to_section ss1 = scroll_to_section ss"
proof -
  let ?s0 = "init_last_selected selected_property ss"
  from assms have p: "Some selected_property = last_selected_property ?s0"
    by (auto simp: reset_logic_def property_reset_def split: if_splits)
  from assms p obtain row
    where r: "selected_row data selected_property = Inr row" "input_panel ops ws row = Inr i"
    by (auto simp: reset_logic_def property_reset_def bind_result_def
        split: if_splits sum.splits)
  from assms p r have e: "ss1 = init_inputs i ?s0"
    and d: "\<not> inputs_differ ops (inputs_dict_of i) (init_inputs i ?s0)"
    by (auto simp: reset_logic_def property_reset_def bind_result_def inputs_reset_def Let_def
        split: if_splits sum.splits)
  from d obtain stored where "inputs (init_inputs i ?s0) = Some stored"
    "dict_eq ops (inputs_dict_of i) stored"
    by (auto simp: inputs_differ_def split: option.splits)
  with e p r show ?thesis
    by (simp add: init_inputs_fields init_last_selected_fields)
qed

lemma input_panel_fresh:
  assumes "fresh_widgets ops ws row"
    and "\<not> f_lt ops (get_or ops (Rental_Collections_Percentage row) 100) (f_of_int ops 0)"
    and "\<not> f_lt ops (f_of_int ops 100) (get_or ops (Rental_Collections_Percentage row) 100)"
  shows "input_panel ops ws row = Inr (row_values ops row)"
  using assms
  by (simp add: input_panel_def fresh_widgets_def number_input_bounded_def number_input_def
      bind_result_def row_values_def Let_def)

lemma init_scroll_fields:
  "messages (init_scroll ss) = messages ss"
  "inputs (init_scroll ss) = inputs ss"
  "last_selected_property (init_scroll ss) = last_selected_property ss"
  "scroll_to_section (init_scroll ss) \<noteq> None"
  by (simp_all add: init_scroll_def split: option.splits)

lemma init_scroll_set: "scroll_to_section ss = Some t \<Longrightarrow> init_scroll ss = ss"
  by (simp add: init_scroll_def)

lemma no_events_fields:
  "\<not> clear_chat no_events" "user_question no_events = None"
  by (simp_all add: no_events_def user_question_def quick_question_def)

lemma finish_fields:
  "\<exists>ss' pg. finish U ss = Finished ss' pg \<and> messages ss' = messages ss
     \<and> inputs ss' = inputs ss \<and> last_selected_property ss' = last_selected_property ss
     \<and> conversation pg = show_conversation U ss"
  by (simp add: finish_def split: option.splits)

lemma init_messages_fields:
  "messages (init_messages ss) = Some (case messages ss of None \<Rightarrow> [] | Some ms \<Rightarrow> ms)"
  "inputs (init_messages ss) = inputs ss"
  "last_selected_property (init_messages ss) = last_selected_property ss"
  "scroll_to_section (init_messages ss) = scroll_to_section ss"
  by (simp_all add: init_messages_def split: option.splits)

lemma init_messages_set: "messages ss = Some ms \<Longrightarrow> init_messages ss = ss"
  by (simp add: init_messages_def)

text \<open>A run in which nothing is clicked or asked posts nothing.\<close>

lemma run_no_events_posts_nothing:
  "fst (run_script U ops data ws no_events post selected_property ss) = []"
  by (simp add: run_script_def chat_assistant_def no_events_fields Let_def
      split: reset_result.splits sum.splits)

lemma run_script_continue:
  assumes "reset_logic ops data ws selected_property (init_scroll ss) = Reset_Continue i ss1"
    and "calculate_outputs ops i = Inr out"
  shows "run_script U ops data ws ev post selected_property ss
     = chat_assistant U post selected_property i out ev ss1"
  using assms by (simp add: run_script_def)

text \<open>
  Claim C10: when the selected property is the last selected one and the nine
  current inputs equal the stored ones, the reset logic of lines 64-117 takes neither
  branch and goes on with the session state as it was. The run in which nothing is
  clicked or asked then ends with the same transcript (the empty one, if the key was
  not set yet), the same stored inputs and the same marker.
\<close>

theorem reset_logic_leaves_state:
  assumes "last_selected_property ss = Some selected_property"
    and "selected_row data selected_property = Inr row"
    and "input_panel ops ws row = Inr i"
    and "inputs ss = Some stored"
    and "dict_eq ops (inputs_dict_of i) stored"
  shows "reset_logic ops data ws selected_property ss = Reset_Continue i ss
     \<and> (\<not> f_is_zero ops (f_of_int ops 100) \<longrightarrow>
          (\<exists>ss' pg. run_script U ops data ws no_events post selected_property ss
                       = ([], Finished ss' pg)
             \<and> messages ss' = Some (case messages ss of None \<Rightarrow> [] | Some ms \<Rightarrow> ms)
             \<and> inputs ss' = inputs ss
             \<and> last_selected_property ss' = last_selected_property ss))"
proof (intro conjI impI)
  show "reset_logic ops data ws selected_property ss = Reset_Continue i ss"
    using assms by (rule reset_logic_continueI)
next
  assume "\<not> f_is_zero ops (f_of_int ops 100)"
  from calculate_outputs_facts [OF this, of i]
  obtain out where o: "calculate_outputs ops i = Inr out" by blast
  let ?s = "init_scroll ss"
  have "reset_logic ops data ws selected_property ?s = Reset_Continue i ?s"
    using assms by (intro reset_logic_continueI) (simp_all add: init_scroll_fields)
  from run_script_continue [OF this o]
  have r: "run_script U ops data ws no_events post selected_property ss
     = ([], finish U (init_messages ?s))"
    by (simp add: chat_assistant_def no_events_fields Let_def)
  from finish_fields [of U "init_messages ?s"]
  obtain ss' pg where "finish U (init_messages ?s) = Finished ss' pg"
    "messages ss' = messages (init_messages ?s)" "inputs ss' = inputs (init_messages ?s)"
    "last_selected_property ss' = last_selected_property (init_messages ?s)"
    by blast
  with r show "\<exists>ss' pg. run_script U ops data ws no_events post selected_property ss
                       = ([], Finished ss' pg)
             \<and> messages ss' = Some (case messages ss of None \<Rightarrow> [] | Some ms \<Rightarrow> ms)
             \<and> inputs ss' = inputs ss
             \<and> last_selected_property ss' = last_selected_property ss"
    by (simp add: init_messages_fields init_scroll_fields)
qed

lemmas binary64_fields =
  binary64_def [THEN arg_cong [of _ _ f_mul]] binary64_def [THEN arg_cong [of _ _ f_div]]
  binary64_def [THEN arg_cong [of _ _ f_sub]] binary64_def [THEN arg_cong [of _ _ f_is_zero]]
  binary64_def [THEN arg_cong [of _ _ f_eq]] binary64_def [THEN arg_cong [of _ _ f_lt]]
  binary64_def [THEN arg_cong [of _ _ f_of_int]] binary64_def [THEN arg_cong [of _ _ f_nan]]

lemma binary64_ints:
  "f_of_int binary64 0 = Finite 0" "f_of_int binary64 100 = Finite 100"
  "round_double 0 = Finite 0" "round_double 100 = Finite 100"
  by code_simp+

lemma example_rows:
  "selected_row example_data (str ''Elm Street 1'') = Inr (example_row ''Elm Street 1'' ''00501'' 2000)"
  "selected_row example_data (str ''Oak Avenue 2'') = Inr oak_row"
  by (simp_all add: selected_row_def example_data_def load_data_def example_sheet_def
      example_row_def oak_row_def example_zips) (simp_all add: str_def)

lemma example_panels:
  "input_panel binary64 no_edits (example_row ''Elm Street 1'' ''00501'' 2000) = Inr elm_values"
  "input_panel binary64 no_edits oak_row = Inr elm_values"
  "input_panel binary64 hoa_edited oak_row = Inr (elm_values\<lparr>total_hoa := Finite 2500\<rparr>)"
  "row_values binary64 oak_row = elm_values"
  by (simp_all add: input_panel_def number_input_bounded_def number_input_def bind_result_def
      row_values_def get_or_def binary64_ints example_row_def oak_row_def elm_values_def
      no_edits_def hoa_edited_def Let_def binary64_fields)

lemma elm_values_equal: "dict_eq binary64 (inputs_dict_of elm_values) (inputs_dict_of elm_values)"
  by (simp add: dict_eq_def inputs_dict_of_def elm_values_def binary64_fields)

theorem reset_logic_leaves_state_witness:
  "last_selected_property example_session = Some (str ''Elm Street 1'')
   \<and> inputs example_session = Some (inputs_dict_of elm_values)
   \<and> reset_logic binary64 example_data no_edits (str ''Elm Street 1'') example_session
       = Reset_Continue elm_values example_session
   \<and> (\<exists>ss' pg. run_script basic_tables binary64 example_data no_edits no_events
                  (endpoint_returning \<lparr>status_code = 200, choices = []\<rparr>)
                  (str ''Elm Street 1'') example_session
                  = ([], Finished ss' pg)
        \<and> messages ss' = Some example_transcript
        \<and> inputs ss' = Some (inputs_dict_of elm_values)
        \<and> last_selected_property ss' = Some (str ''Elm Street 1''))"
proof -
  have s: "last_selected_property example_session = Some (str ''Elm Street 1'')"
    "inputs example_session = Some (inputs_dict_of elm_values)"
    "messages example_session = Some example_transcript"
    by (simp_all add: example_session_def)
  from reset_logic_leaves_state [OF s(1) example_rows(1) example_panels(1) s(2) elm_values_equal,
      of basic_tables "endpoint_returning \<lparr>status_code = 200, choices = []\<rparr>"]
    hundred_not_zero s
  show ?thesis by simp
qed

section \<open>Resets of the transcript and of the stored inputs\<close>

lemma run_script_rerun:
  "reset_logic ops data ws selected_property (init_scroll ss) = Reset_Rerun ss1 \<Longrightarrow>
   run_script U ops data ws ev post selected_property ss = ([], Rerun ss1)"
  by (simp add: run_script_def)

text \<open>When the current inputs differ from the stored ones, the transcript is cleared.\<close>

lemma input_change_clears_transcript:
  assumes "last_selected_property ss = None \<or> last_selected_property ss = Some selected_property"
    and "selected_row data selected_property = Inr row"
    and "input_panel ops ws row = Inr i"
    and "inputs ss = Some stored"
    and "\<not> dict_eq ops (inputs_dict_of i) stored"
  shows "\<exists>ss'. run_script U ops data ws ev post selected_property ss = ([], Rerun ss')
     \<and> messages ss' = Some [] \<and> inputs ss' = Some (inputs_dict_of i)
     \<and> last_selected_property ss' = Some selected_property"
proof -
  have "reset_logic ops data ws selected_property (init_scroll ss) =
     Reset_Rerun ((init_scroll ss)\<lparr>last_selected_property := Some selected_property,
        messages := Some [], inputs := Some (inputs_dict_of i),
        scroll_to_section := Some (Some ''outputs'')\<rparr>)"
    using assms by (intro inputs_reset_changed) (simp_all add: init_scroll_fields)
  from run_script_rerun [OF this] show ?thesis by simp
qed

text \<open>
  When another property is selected, the transcript is cleared and the stored
  inputs become the empty dict.
\<close>

lemma property_change_clears:
  assumes "last_selected_property ss = Some previous" and "previous \<noteq> selected_property"
  shows "\<exists>ss'. run_script U ops data ws ev post selected_property ss = ([], Rerun ss')
     \<and> messages ss' = Some [] \<and> inputs ss' = Some []
     \<and> last_selected_property ss' = Some selected_property
     \<and> scroll_to_section ss' = Some (Some ''outputs'')"
proof -
  have "reset_logic ops data ws selected_property (init_scroll ss) =
     Reset_Rerun ((init_scroll ss)\<lparr>messages := Some [], inputs := Some [],
        last_selected_property := Some selected_property,
        scroll_to_section := Some (Some ''outputs'')\<rparr>)"
    using assms by (intro property_reset_changed) (simp_all add: init_scroll_fields)
  from run_script_rerun [OF this] show ?thesis by simp
qed

text \<open>
  The run that follows stores the values the nine inputs return, which are the values
  of the row when no widget carries an entry.
\<close>

lemma property_change_then_rerun:
  assumes "last_selected_property ss = Some previous" and "previous \<noteq> selected_property"
    and "selected_row data selected_property = Inr row"
    and "input_panel ops ws row = Inr i"
  shows "messages (state_after_rerun U ops data ws ev post selected_property ss) = Some []
     \<and> inputs (state_after_rerun U ops data ws ev post selected_property ss)
         = Some (inputs_dict_of i)
     \<and> last_selected_property (state_after_rerun U ops data ws ev post selected_property ss)
         = Some selected_property"
proof -
  from property_change_clears [OF assms(1,2)]
  obtain ss1 where r1: "run_script U ops data ws ev post selected_property ss = ([], Rerun ss1)"
    and f1: "inputs ss1 = Some []" "last_selected_property ss1 = Some selected_property"
    by blast
  from input_change_clears_transcript [OF _ assms(3,4) f1(1) dict_eq_empty] f1(2)
  obtain ss2
    where r2: "run_script U ops data ws no_events post selected_property ss1 = ([], Rerun ss2)"
      and f2: "messages ss2 = Some []" "inputs ss2 = Some (inputs_dict_of i)"
        "last_selected_property ss2 = Some selected_property"
    by blast
  from r1 r2 f2 show ?thesis by (simp add: state_after_rerun_def)
qed

lemma property_change_reseeds:
  assumes "last_selected_property ss = Some previous" and "previous \<noteq> selected_property"
    and "selected_row data selected_property = Inr row"
    and "fresh_widgets ops ws row"
    and "\<not> f_lt ops (get_or ops (Rental_Collections_Percentage row) 100) (f_of_int ops 0)"
    and "\<not> f_lt ops (f_of_int ops 100) (get_or ops (Rental_Collections_Percentage row) 100)"
  shows "inputs (state_after_rerun U ops data ws ev post selected_property ss)
     = Some (inputs_dict_of (row_values ops row))"
  using property_change_then_rerun [OF assms(1,2,3) input_panel_fresh [OF assms(4,5,6)]]
  by simp


section \<open>The chat assistant\<close>

lemma typing_frames_last: "t \<noteq> [] \<Longrightarrow> last (typing_frames t) = t"
  by (cases t) (simp_all add: typing_frames_def)

lemma run_script_ask:
  assumes "reset_logic ops data ws selected_property (init_scroll ss) = Reset_Continue i ss1"
    and "calculate_outputs ops i = Inr out"
    and "\<not> clear_chat ev" and "user_question ev = Some q" and "q \<noteq> []"
  shows "run_script U ops data ws ev post selected_property ss
     = ask post selected_property i out q (init_messages ss1)"
  using assms by (simp add: run_script_def chat_assistant_def Let_def)

text \<open>What the transcript and the other keys are after an answer has been stored.\<close>

lemma ask_answer_fields:
  "messages ((append_message \<lparr>role = Assistant, content = a\<rparr>
              (append_message \<lparr>role = User, content = q\<rparr> (ss\<lparr>messages := Some []\<rparr>)))
             \<lparr>scroll_to_section := Some (Some ''chatbot'')\<rparr>)
     = Some [\<lparr>role = User, content = q\<rparr>, \<lparr>role = Assistant, content = a\<rparr>]"
  "inputs ((append_message \<lparr>role = Assistant, content = a\<rparr>
              (append_message \<lparr>role = User, content = q\<rparr> (ss\<lparr>messages := Some []\<rparr>)))
             \<lparr>scroll_to_section := Some (Some ''chatbot'')\<rparr>) = inputs ss"
  "last_selected_property ((append_message \<lparr>role = Assistant, content = a\<rparr>
              (append_message \<lparr>role = User, content = q\<rparr> (ss\<lparr>messages := Some []\<rparr>)))
             \<lparr>scroll_to_section := Some (Some ''chatbot'')\<rparr>) = last_selected_property ss"
  "scroll_to_section ((append_message \<lparr>role = Assistant, content = a\<rparr>
              (append_message \<lparr>role = User, content = q\<rparr> (ss\<lparr>messages := Some []\<rparr>)))
             \<lparr>scroll_to_section := Some (Some ''chatbot'')\<rparr>) = Some (Some ''chatbot'')"
  by (simp_all add: append_message_def)

lemma ask_not_200:
  assumes "post \<lparr>model_name = ''mistralai/mistral-7b-instruct'',
                  context_property = selected_property, context_inputs = i,
                  context_outputs = out, question = q\<rparr> = Inr resp"
    and "status_code resp \<noteq> 200"
  shows "ask post selected_property i out q ss =
     ([\<lparr>model_name = ''mistralai/mistral-7b-instruct'',
        context_property = selected_property, context_inputs = i,
        context_outputs = out, question = q\<rparr>],
      Rerun ((append_message \<lparr>role = Assistant, content = fallback_message\<rparr>
                (append_message \<lparr>role = User, content = q\<rparr> (ss\<lparr>messages := Some []\<rparr>)))
               \<lparr>scroll_to_section := Some (Some ''chatbot'')\<rparr>))"
  using assms by (simp add: ask_def Let_def)

lemma ask_200:
  assumes "post \<lparr>model_name = ''mistralai/mistral-7b-instruct'',
                  context_property = selected_property, context_inputs = i,
                  context_outputs = out, question = q\<rparr> = Inr resp"
    and "status_code resp = 200" and "choices resp = reply # others"
  shows "ask post selected_property i out q ss =
     ([\<lparr>model_name = ''mistralai/mistral-7b-instruct'',
        context_property = selected_property, context_inputs = i,
        context_outputs = out, question = q\<rparr>],
      Rerun ((append_message \<lparr>role = Assistant, content = reply\<rparr>
                (append_message \<lparr>role = User, content = q\<rparr> (ss\<lparr>messages := Some []\<rparr>)))
               \<lparr>scroll_to_section := Some (Some ''chatbot'')\<rparr>))"
  using assms by (simp add: ask_def Let_def)

text \<open>The run that follows an answer shows the transcript and changes none of it.\<close>

lemma rerun_shows_transcript:
  assumes "last_selected_property ss = Some selected_property"
    and "selected_row data selected_property = Inr row"
    and "input_panel ops ws row = Inr i"
    and "inputs ss = Some stored"
    and "dict_eq ops (inputs_dict_of i) stored"
    and "calculate_outputs ops i = Inr out"
    and "messages ss = Some ms"
    and "scroll_to_section ss = Some (Some ''chatbot'')"
  shows "run_script U ops data ws no_events post selected_property ss
     = ([], Finished (ss\<lparr>scroll_to_section := Some None\<rparr>)
              \<lparr>conversation = map (show_message U) ms, scrolled_to = Some ''chatbot''\<rparr>)"
proof -
  have "init_scroll ss = ss" using assms(8) by (rule init_scroll_set)
  moreover have "reset_logic ops data ws selected_property ss = Reset_Continue i ss"
    using assms(1-5) by (rule reset_logic_continueI)
  ultimately have "run_script U ops data ws no_events post selected_property ss
     = chat_assistant U post selected_property i out no_events ss"
    using assms(6) by (simp add: run_script_def)
  then show ?thesis
    using assms(7,8)
    by (simp add: chat_assistant_def no_events_fields init_messages_set Let_def finish_def
        show_conversation_def)
qed

text \<open>
  Claim C8: whatever status other than 200 the endpoint returns, the run posts one
  request, stores the question and the one fallback message as the transcript and
  stops at a rerun; the run that follows posts nothing.
\<close>

theorem fallback_on_any_other_status:
  assumes "reset_logic ops data ws selected_property (init_scroll ss) = Reset_Continue i ss1"
    and "calculate_outputs ops i = Inr out"
    and "\<not> clear_chat ev" and "user_question ev = Some q" and "q \<noteq> []"
    and "post \<lparr>model_name = ''mistralai/mistral-7b-instruct'',
                  context_property = selected_property, context_inputs = i,
                  context_outputs = out, question = q\<rparr> = Inr resp"
    and "status_code resp \<noteq> 200"
  shows "\<exists>ss'. run_script U ops data ws ev post selected_property ss =
       ([\<lparr>model_name = ''mistralai/mistral-7b-instruct'',
          context_property = selected_property, context_inputs = i,
          context_outputs = out, question = q\<rparr>], Rerun ss')
     \<and> messages ss' = Some [\<lparr>role = User, content = q\<rparr>,
                             \<lparr>role = Assistant, content = fallback_message\<rparr>]
     \<and> fst (run_script U ops data ws no_events post selected_property ss') = []"
  using run_script_ask [OF assms(1-5), of U post] ask_not_200 [where post = post and resp = resp, OF assms(6,7)]
  by (simp add: ask_answer_fields run_no_events_posts_nothing)

lemma example_reset_continues:
  "reset_logic binary64 example_data no_edits (str ''Elm Street 1'') (init_scroll example_session)
     = Reset_Continue elm_values example_session"
proof -
  have s: "last_selected_property example_session = Some (str ''Elm Street 1'')"
    "inputs example_session = Some (inputs_dict_of elm_values)"
    "scroll_to_section example_session = Some None"
    by (simp_all add: example_session_def)
  from s(3) have "init_scroll example_session = example_session" by (rule init_scroll_set)
  with reset_logic_continueI [OF s(1) example_rows(1) example_panels(1) s(2) elm_values_equal]
  show ?thesis by simp
qed

lemma asking_fields: "\<not> clear_chat (asking q)" "user_question (asking q) = Some (str q)"
  by (simp_all add: asking_def no_events_def user_question_def quick_question_def)

theorem fallback_on_any_other_status_witness:
  "\<exists>out ss'. calculate_outputs binary64 elm_values = Inr out
     \<and> status_code \<lparr>status_code = 503, choices = []\<rparr> \<noteq> 200
     \<and> run_script basic_tables binary64 example_data no_edits (asking ''What now?'')
          (endpoint_returning \<lparr>status_code = 503, choices = []\<rparr>) (str ''Elm Street 1'')
          example_session
        = ([\<lparr>model_name = ''mistralai/mistral-7b-instruct'',
             context_property = str ''Elm Street 1'', context_inputs = elm_values,
             context_outputs = out, question = str ''What now?''\<rparr>], Rerun ss')
     \<and> messages ss' = Some [\<lparr>role = User, content = str ''What now?''\<rparr>,
                             \<lparr>role = Assistant, content = fallback_message\<rparr>]"
proof -
  from calculate_outputs_facts [OF hundred_not_zero, of elm_values]
  obtain out where o: "calculate_outputs binary64 elm_values = Inr out" by blast
  have q: "str ''What now?'' \<noteq> []" by (simp add: str_def)
  have p: "endpoint_returning \<lparr>status_code = 503, choices = []\<rparr>
       \<lparr>model_name = ''mistralai/mistral-7b-instruct'',
        context_property = str ''Elm Street 1'', context_inputs = elm_values,
        context_outputs = out, question = str ''What now?''\<rparr>
     = Inr \<lparr>status_code = 503, choices = []\<rparr>"
    by (simp add: endpoint_returning_def)
  have c: "status_code \<lparr>status_code = 503, choices = []\<rparr> \<noteq> 200" by simp
  from fallback_on_any_other_status [where post = "endpoint_returning \<lparr>status_code = 503, choices = []\<rparr>"
      and resp = "\<lparr>status_code = 503, choices = []\<rparr>" and U = basic_tables,
      OF example_reset_continues o asking_fields q p c] o c
  show ?thesis by blast
qed

text \<open>
  Claim C6, as the code has it: on status 200 the run stores the first completion's
  text as it came, and stops at a rerun; the cleanup pass is applied when the
  transcript is shown, in the run that follows: the text revealed for the assistant's
  entry grows to \<open>clean_response_text\<close> of the stored text, and the stored text stays
  as it is.
\<close>

theorem reply_stored_raw_and_cleaned_when_shown:
  assumes "reset_logic ops data ws selected_property (init_scroll ss) = Reset_Continue i ss1"
    and "calculate_outputs ops i = Inr out"
    and "\<not> clear_chat ev" and "user_question ev = Some q" and "q \<noteq> []"
    and "post \<lparr>model_name = ''mistralai/mistral-7b-instruct'',
                  context_property = selected_property, context_inputs = i,
                  context_outputs = out, question = q\<rparr> = Inr resp"
    and "status_code resp = 200" and "choices resp = reply # others"
  shows "\<exists>ss' ss'' pg. run_script U ops data ws ev post selected_property ss =
       ([\<lparr>model_name = ''mistralai/mistral-7b-instruct'',
          context_property = selected_property, context_inputs = i,
          context_outputs = out, question = q\<rparr>], Rerun ss')
     \<and> messages ss' = Some [\<lparr>role = User, content = q\<rparr>, \<lparr>role = Assistant, content = reply\<rparr>]
     \<and> run_script U ops data ws no_events post selected_property ss' = ([], Finished ss'' pg)
     \<and> conversation pg = [Markdown q, Typed (typing_frames (clean_response_text U reply))]
     \<and> (clean_response_text U reply \<noteq> [] \<longrightarrow>
          last (typing_frames (clean_response_text U reply)) = clean_response_text U reply)
     \<and> messages ss'' = messages ss'"
proof -
  let ?ss' = "(append_message \<lparr>role = Assistant, content = reply\<rparr>
                (append_message \<lparr>role = User, content = q\<rparr>
                   ((init_messages ss1)\<lparr>messages := Some []\<rparr>)))
               \<lparr>scroll_to_section := Some (Some ''chatbot'')\<rparr>"
  from run_script_ask [OF assms(1-5), of U post] ask_200 [where post = post and resp = resp, OF assms(6-8)]
  have r1: "run_script U ops data ws ev post selected_property ss =
       ([\<lparr>model_name = ''mistralai/mistral-7b-instruct'',
          context_property = selected_property, context_inputs = i,
          context_outputs = out, question = q\<rparr>], Rerun ?ss')"
    by simp
  have m: "messages ?ss' = Some [\<lparr>role = User, content = q\<rparr>, \<lparr>role = Assistant, content = reply\<rparr>]"
    by (rule ask_answer_fields)
  from reset_logic_continueD [OF assms(1)]
  obtain row stored where c: "last_selected_property ss1 = Some selected_property"
    "selected_row data selected_property = Inr row" "input_panel ops ws row = Inr i"
    "inputs ss1 = Some stored" "dict_eq ops (inputs_dict_of i) stored"
    by blast
  have l: "last_selected_property ?ss' = Some selected_property"
    using c(1) by (simp add: ask_answer_fields init_messages_fields)
  have n: "inputs ?ss' = Some stored"
    using c(4) by (simp add: ask_answer_fields init_messages_fields)
  have t: "scroll_to_section ?ss' = Some (Some ''chatbot'')" by (rule ask_answer_fields)
  from rerun_shows_transcript [OF l c(2,3) n c(5) assms(2) m t, of U post]
  have r2: "run_script U ops data ws no_events post selected_property ?ss'
     = ([], Finished (?ss'\<lparr>scroll_to_section := Some None\<rparr>)
              \<lparr>conversation = [Markdown q, Typed (typing_frames (clean_response_text U reply))],
               scrolled_to = Some ''chatbot''\<rparr>)"
    by (simp add: show_message_def)
  have f: "clean_response_text U reply \<noteq> [] \<longrightarrow>
          last (typing_frames (clean_response_text U reply)) = clean_response_text U reply"
    by (simp add: typing_frames_last)
  from r1 m r2 f show ?thesis
    by (intro exI [of _ ?ss'] exI [of _ "?ss'\<lparr>scroll_to_section := Some None\<rparr>"]
        exI [of _ "\<lparr>conversation = [Markdown q, Typed (typing_frames (clean_response_text U reply))],
               scrolled_to = Some ''chatbot''\<rparr>"]) simp
qed

lemma example_cleaned: "clean_response_text U (str ''Hi.There'') = str ''Hi. There''"
  by (simp add: cleanup_defs)

theorem reply_stored_raw_and_cleaned_when_shown_witness:
  "\<exists>out ss' ss'' pg. calculate_outputs binary64 elm_values = Inr out
     \<and> run_script basic_tables binary64 example_data no_edits (asking ''What now?'')
          (endpoint_returning \<lparr>status_code = 200, choices = [str ''Hi.There'']\<rparr>)
          (str ''Elm Street 1'') example_session
        = ([\<lparr>model_name = ''mistralai/mistral-7b-instruct'',
             context_property = str ''Elm Street 1'', context_inputs = elm_values,
             context_outputs = out, question = str ''What now?''\<rparr>], Rerun ss')
     \<and> messages ss' = Some [\<lparr>role = User, content = str ''What now?''\<rparr>,
                             \<lparr>role = Assistant, content = str ''Hi.There''\<rparr>]
     \<and> run_script basic_tables binary64 example_data no_edits no_events
          (endpoint_returning \<lparr>status_code = 200, choices = [str ''Hi.There'']\<rparr>)
          (str ''Elm Street 1'') ss'
        = ([], Finished ss'' pg)
     \<and> conversation pg = [Markdown (str ''What now?''), Typed (typing_frames (str ''Hi. There''))]
     \<and> last (typing_frames (str ''Hi. There'')) = str ''Hi. There''"
proof -
  from calculate_outputs_facts [OF hundred_not_zero, of elm_values]
  obtain out where o: "calculate_outputs binary64 elm_values = Inr out" by blast
  have q: "str ''What now?'' \<noteq> []" by (simp add: str_def)
  have p: "endpoint_returning \<lparr>status_code = 200, choices = [str ''Hi.There'']\<rparr>
       \<lparr>model_name = ''mistralai/mistral-7b-instruct'',
        context_property = str ''Elm Street 1'', context_inputs = elm_values,
        context_outputs = out, question = str ''What now?''\<rparr>
     = Inr \<lparr>status_code = 200, choices = [str ''Hi.There'']\<rparr>"
    by (simp add: endpoint_returning_def)
  have c: "status_code \<lparr>status_code = 200, choices = [str ''Hi.There'']\<rparr> = 200"
    "choices \<lparr>status_code = 200, choices = [str ''Hi.There'']\<rparr> = str ''Hi.There'' # []"
    by simp_all
  have e: "str ''Hi. There'' \<noteq> []" by (simp add: str_def)
  from reply_stored_raw_and_cleaned_when_shown [where post = "endpoint_returning \<lparr>status_code = 200, choices = [str ''Hi.There'']\<rparr>"
      and resp = "\<lparr>status_code = 200, choices = [str ''Hi.There'']\<rparr>" and U = basic_tables,
      OF example_reset_continues o asking_fields q p c] o e
  show ?thesis unfolding example_cleaned by blast
qed

text \<open>
  The stored entry is the text as it came, which is not what the cleanup pass makes
  of it.
\<close>

theorem reply_not_cleaned_before_storage_counterexample:
  "messages (state_of (snd (run_script basic_tables binary64 example_data no_edits
       (asking ''What now?'')
       (endpoint_returning \<lparr>status_code = 200, choices = [str ''Hi.There'']\<rparr>)
       (str ''Elm Street 1'') example_session)))
     = Some [\<lparr>role = User, content = str ''What now?''\<rparr>,
             \<lparr>role = Assistant, content = str ''Hi.There''\<rparr>]
   \<and> clean_response_text basic_tables (str ''Hi.There'') = str ''Hi. There''
   \<and> str ''Hi.There'' \<noteq> str ''Hi. There''"
proof -
  from calculate_outputs_facts [OF hundred_not_zero, of elm_values]
  obtain out where o: "calculate_outputs binary64 elm_values = Inr out" by blast
  have q: "str ''What now?'' \<noteq> []" by (simp add: str_def)
  have p: "endpoint_returning \<lparr>status_code = 200, choices = [str ''Hi.There'']\<rparr>
       \<lparr>model_name = ''mistralai/mistral-7b-instruct'',
        context_property = str ''Elm Street 1'', context_inputs = elm_values,
        context_outputs = out, question = str ''What now?''\<rparr>
     = Inr \<lparr>status_code = 200, choices = [str ''Hi.There'']\<rparr>"
    by (simp add: endpoint_returning_def)
  have c: "status_code \<lparr>status_code = 200, choices = [str ''Hi.There'']\<rparr> = 200"
    "choices \<lparr>status_code = 200, choices = [str ''Hi.There'']\<rparr> = str ''Hi.There'' # []"
    by simp_all
  from run_script_ask [OF example_reset_continues o asking_fields q, of basic_tables
      "endpoint_returning \<lparr>status_code = 200, choices = [str ''Hi.There'']\<rparr>"]
    ask_200 [where post = "endpoint_returning \<lparr>status_code = 200, choices = [str ''Hi.There'']\<rparr>"
      and resp = "\<lparr>status_code = 200, choices = [str ''Hi.There'']\<rparr>", OF p c]
  have "messages (state_of (snd (run_script basic_tables binary64 example_data no_edits
       (asking ''What now?'')
       (endpoint_returning \<lparr>status_code = 200, choices = [str ''Hi.There'']\<rparr>)
       (str ''Elm Street 1'') example_session)))
     = Some [\<lparr>role = User, content = str ''What now?''\<rparr>,
             \<lparr>role = Assistant, content = str ''Hi.There''\<rparr>]"
    by (simp add: ask_answer_fields)
  moreover have "str ''Hi.There'' \<noteq> str ''Hi. There''" by (simp add: str_def)
  ultimately show ?thesis by (simp add: example_cleaned)
qed

end
